theory Spec2Isabelle
  imports Main "HOL-Library.Word"
begin

unbundle bit_operations_syntax

section \<open>C strings and formatted output\<close>

text \<open>
  A C string is modelled by the bytes its pointer addresses, as a \<open>char list\<close>; the
  string ends at the first NUL byte or, when there is none, at the end of the list.
  A pointer that may be \<open>NULL\<close> is an \<open>option\<close>.
\<close>

definition NUL :: char where
  "NUL = CHR 0x00"

definition cstr :: "string \<Rightarrow> string" where
  "cstr s = takeWhile (\<lambda>c. c \<noteq> NUL) s"

definition g_strdup :: "string option \<Rightarrow> string option" where
  "g_strdup p = map_option cstr p"

definition strlen :: "string \<Rightarrow> nat" where
  "strlen s = length (cstr s)"

text \<open>\<open>memset (buf, c, n)\<close>: the first \<open>n\<close> bytes of the buffer become \<open>c\<close>.\<close>

definition memset :: "string \<Rightarrow> char \<Rightarrow> nat \<Rightarrow> string" where
  "memset buf c n = replicate (min n (length buf)) c @ drop n buf"

text \<open>The value of a \<open>gchar\<close> converted to \<open>gint\<close>. Whether plain \<open>char\<close> is signed is
  the platform's choice (it is on x86 Linux), so it is a parameter.\<close>

definition gchar_to_gint :: "bool \<Rightarrow> char \<Rightarrow> int" where
  "gchar_to_gint char_signed ch =
     (let b = (of_char ch :: int) in if char_signed \<and> 128 \<le> b then b - 256 else b)"

text \<open>The digits \<open>printf\<close> writes, for bases up to 16.\<close>

definition digit_char :: "nat \<Rightarrow> char" where
  "digit_char d = ''0123456789abcdef'' ! d"

fun digits_of :: "nat \<Rightarrow> nat \<Rightarrow> string" where
  "digits_of b n =
     (if b < 2 \<or> n < b then [digit_char n] else digits_of b (n div b) @ [digit_char (n mod b)])"

declare digits_of.simps [simp del]

text \<open>\<open>printf\<close>'s \<open>%d\<close> of a \<open>gint\<close>.\<close>

definition printf_d :: "int \<Rightarrow> string" where
  "printf_d i = (if i < 0 then CHR ''-'' # digits_of 10 (nat (- i)) else digits_of 10 (nat i))"

text \<open>\<open>printf\<close>'s \<open>%02x\<close> of a \<open>gint\<close>: the argument is read as an \<open>unsigned int\<close>
  (32 bits), written in lowercase hexadecimal and padded with zeros to at least two
  digits.\<close>

definition printf_02x :: "int \<Rightarrow> string" where
  "printf_02x i =
     (let ds = digits_of 16 (nat (i mod 2 ^ 32))
      in replicate (2 - length ds) CHR ''0'' @ ds)"

section \<open>udisksdaemonutil.c\<close>

subsection \<open>udisks_safe_append_to_object_path\<close>

definition is_alnum_gint :: "int \<Rightarrow> bool" where
  "is_alnum_gint c \<longleftrightarrow>
     (c \<ge> 65 \<and> c \<le> 90) \<or> (c \<ge> 97 \<and> c \<le> 122) \<or> (c \<ge> 48 \<and> c \<le> 57)"

text \<open>The text appended for one byte of the input.\<close>

definition escape_byte :: "bool \<Rightarrow> char \<Rightarrow> string" where
  "escape_byte char_signed ch =
     (let c = gchar_to_gint char_signed ch
      in if is_alnum_gint c then [ch] else CHR ''_'' # printf_02x c)"

text \<open>The loop \<open>for (n = 0; s[n] != '\0'; n++)\<close>, the \<open>GString\<close> passed along.\<close>

fun udisks_safe_append_to_object_path :: "bool \<Rightarrow> string \<Rightarrow> string \<Rightarrow> string" where
  "udisks_safe_append_to_object_path char_signed str [] = str"
| "udisks_safe_append_to_object_path char_signed str (ch # s) =
     (if ch = NUL then str
      else udisks_safe_append_to_object_path char_signed (str @ escape_byte char_signed ch) s)"

subsection \<open>udisks_decode_udev_string\<close>

text \<open>GLib's \<open>g_ascii_xdigit_value\<close>: the value of a hexadecimal digit, -1 otherwise.\<close>

definition g_ascii_xdigit_value :: "char \<Rightarrow> int" where
  "g_ascii_xdigit_value ch =
     (let c = (of_char ch :: int)
      in if 48 \<le> c \<and> c \<le> 57 then c - 48
         else if 97 \<le> c \<and> c \<le> 102 then c - 97 + 10
         else if 65 \<le> c \<and> c \<le> 70 then c - 65 + 10
         else - 1)"

text \<open>\<open>g_string_append_c (s, val)\<close> stores the low eight bits of the \<open>gint\<close>.\<close>

definition gint_to_gchar :: "int \<Rightarrow> char" where
  "gint_to_gchar v = char_of (nat (v mod 256))"

text \<open>The decoding loop. It returns the bytes appended to the \<open>GString\<close>. A backslash
  that is not followed by \<open>x\<close> and two more bytes ends the loop (the \<open>break\<close>).\<close>

fun decode_loop :: "string \<Rightarrow> string" where
  "decode_loop [] = []"
| "decode_loop (c # rest) =
     (if c = NUL then []
      else if c = CHR 0x5C then
        (case rest of
           x # h # l # rest' \<Rightarrow>
             if x \<noteq> CHR ''x'' \<or> h = NUL \<or> l = NUL then []
             else gint_to_gchar (push_bit 4 (g_ascii_xdigit_value h) OR g_ascii_xdigit_value l)
                    # decode_loop rest'
         | _ \<Rightarrow> [])
      else c # decode_loop rest)"

text \<open>
  \<open>g_utf8_validate (s->str, -1, &end_valid)\<close> is GLib's; it is a parameter
  \<open>end_valid\<close>, the offset of the first byte that is not valid UTF-8 (the length of
  the string when all of it is valid). \<open>g_strndup\<close> copies at most that many bytes of the
  C string.
\<close>

definition g_strndup :: "string \<Rightarrow> nat \<Rightarrow> string" where
  "g_strndup s n = take n (cstr s)"

text \<open>
  The function returns memory it has allocated, so it is modelled over a heap: the live
  blocks, each an address with the bytes it holds (of two bindings of an address the
  first counts). A pointer is the address of a block, \<open>None\<close> for \<open>NULL\<close>. GLib's allocator
  is a parameter \<open>malloc\<close>: the address it returns in a heap.
\<close>

type_synonym heap = "(nat \<times> string) list"

definition heap_store :: "nat \<Rightarrow> string \<Rightarrow> heap \<Rightarrow> heap" where
  "heap_store a bytes h = (a, bytes) # h"

definition heap_free :: "nat \<Rightarrow> heap \<Rightarrow> heap" where
  "heap_free a h = filter (\<lambda>b. fst b \<noteq> a) h"

text \<open>
  \<open>udisks_decode_udev_string\<close>. \<open>g_string_new (NULL)\<close> allocates the character data of
  the \<open>GString\<close> at the address \<open>s\<close>, and the loop fills it (how GLib grows the data is
  its own matter). When the data is not valid UTF-8, \<open>g_strndup\<close> allocates the copy
  that is returned and \<open>g_string_free (s, TRUE)\<close> releases the data; otherwise
  \<open>g_string_free (s, FALSE)\<close> hands over the data itself. The result is the pointer
  returned and the heap left; there is none when \<open>str\<close> does not point to a live block.
\<close>

definition udisks_decode_udev_string ::
    "(heap \<Rightarrow> nat) \<Rightarrow> (string \<Rightarrow> nat) \<Rightarrow> heap \<Rightarrow> nat option \<Rightarrow> (nat option \<times> heap) option" where
  "udisks_decode_udev_string malloc end_valid h str =
     (case str of
        None \<Rightarrow> Some (None, h)
      | Some p \<Rightarrow>
          (case map_of h p of
             None \<Rightarrow> None
           | Some bytes \<Rightarrow>
               (let s = malloc h;
                    h1 = heap_store s (decode_loop bytes) h;
                    n = end_valid (cstr (decode_loop bytes))
                in if n \<noteq> length (cstr (decode_loop bytes)) then
                     (let ret = malloc h1;
                          h2 = heap_store ret (g_strndup (decode_loop bytes) n) h1
                      in Some (Some ret, heap_free s h2))
                   else Some (Some s, h1))))"

text \<open>An allocator for the concrete runs: the address after the highest one in use.\<close>

definition bump_malloc :: "heap \<Rightarrow> nat" where
  "bump_malloc h = Suc (fold max (map fst h) 0)"

section \<open>udisksmount.c\<close>

text \<open>\<open>dev_t\<close> comes from \<open>sys/types.h\<close>: an unsigned 64-bit integer on Linux. \<open>gint\<close> is a
  signed 32-bit integer.\<close>

record UDisksMount =
  mount_path :: "string option"
  dev :: "64 word"

definition udisks_mount_new :: "64 word \<Rightarrow> string option \<Rightarrow> UDisksMount" where
  "udisks_mount_new d p = \<lparr>mount_path = g_strdup p, dev = d\<rparr>"

text \<open>\<open>strcmp\<close>: the difference of the first two bytes that differ, read as
  \<open>unsigned char\<close>; the end of a string counts as the byte 0.\<close>

fun strcmp :: "string \<Rightarrow> string \<Rightarrow> int" where
  "strcmp [] [] = 0"
| "strcmp [] (b # bs) = - of_char b"
| "strcmp (a # as) [] = of_char a"
| "strcmp (a # as) (b # bs) = (if a = b then strcmp as bs else of_char a - of_char b)"

text \<open>GLib's \<open>g_strcmp0\<close>: \<open>NULL\<close> sorts before every string.\<close>

definition g_strcmp0 :: "string option \<Rightarrow> string option \<Rightarrow> int" where
  "g_strcmp0 str1 str2 =
     (case str1 of
        None \<Rightarrow> (if str2 = None then 0 else - 1)
      | Some s1 \<Rightarrow> (case str2 of None \<Rightarrow> 1 | Some s2 \<Rightarrow> strcmp (cstr s1) (cstr s2)))"

text \<open>The difference of the device numbers is computed in \<open>dev_t\<close> and stored in a
  \<open>gint\<close>: the low 32 bits, read as two's complement.\<close>

definition udisks_mount_compare :: "UDisksMount \<Rightarrow> UDisksMount \<Rightarrow> int" where
  "udisks_mount_compare mount other_mount =
     (let ret = g_strcmp0 (mount_path other_mount) (mount_path mount)
      in if ret \<noteq> 0 then ret
         else sint (ucast (dev mount - dev other_mount) :: 32 word))"

section \<open>udisksspawnedjob.c\<close>

subsection \<open>The platform: wait status macros and signal numbers\<close>

text \<open>
  \<open>WIFEXITED\<close>, \<open>WEXITSTATUS\<close>, \<open>WIFSIGNALED\<close> and \<open>WTERMSIG\<close> are macros of
  \<open>sys/wait.h\<close>, and the numbers of the signals are constants of \<open>signal.h\<close>. Neither
  is part of the repository, so the code is modelled over any \<open>platform\<close> that gives
  them. \<open>linux_platform\<close> holds their values on Linux (glibc, x86) and is used to run
  the model on concrete inputs.
\<close>

datatype posix_signal =
    SIGHUP | SIGINT | SIGQUIT | SIGILL | SIGABRT | SIGFPE | SIGKILL | SIGSEGV | SIGPIPE
  | SIGALRM | SIGTERM | SIGUSR1 | SIGUSR2 | SIGCHLD | SIGCONT | SIGSTOP | SIGTSTP | SIGTTIN
  | SIGTTOU | SIGBUS | SIGPOLL | SIGPROF | SIGSYS | SIGTRAP | SIGURG | SIGVTALRM | SIGXCPU
  | SIGXFSZ

record platform =
  WIFEXITED :: "int \<Rightarrow> bool"
  WEXITSTATUS :: "int \<Rightarrow> int"
  WIFSIGNALED :: "int \<Rightarrow> bool"
  WTERMSIG :: "int \<Rightarrow> int"
  signo :: "posix_signal \<Rightarrow> int"

fun linux_signo :: "posix_signal \<Rightarrow> int" where
  "linux_signo SIGHUP = 1"
| "linux_signo SIGINT = 2"
| "linux_signo SIGQUIT = 3"
| "linux_signo SIGILL = 4"
| "linux_signo SIGTRAP = 5"
| "linux_signo SIGABRT = 6"
| "linux_signo SIGBUS = 7"
| "linux_signo SIGFPE = 8"
| "linux_signo SIGKILL = 9"
| "linux_signo SIGUSR1 = 10"
| "linux_signo SIGSEGV = 11"
| "linux_signo SIGUSR2 = 12"
| "linux_signo SIGPIPE = 13"
| "linux_signo SIGALRM = 14"
| "linux_signo SIGTERM = 15"
| "linux_signo SIGCHLD = 17"
| "linux_signo SIGCONT = 18"
| "linux_signo SIGSTOP = 19"
| "linux_signo SIGTSTP = 20"
| "linux_signo SIGTTIN = 21"
| "linux_signo SIGTTOU = 22"
| "linux_signo SIGURG = 23"
| "linux_signo SIGXCPU = 24"
| "linux_signo SIGXFSZ = 25"
| "linux_signo SIGVTALRM = 26"
| "linux_signo SIGPROF = 27"
| "linux_signo SIGPOLL = 29"
| "linux_signo SIGSYS = 31"

definition linux_platform :: platform where
  "linux_platform =
     \<lparr>WIFEXITED = (\<lambda>status. status AND 0x7f = 0),
      WEXITSTATUS = (\<lambda>status. drop_bit 8 (status AND 0xff00)),
      WIFSIGNALED =
        (\<lambda>status. 0 < sint (signed_drop_bit 1 (word_of_int ((status AND 0x7f) + 1) :: 8 word))),
      WTERMSIG = (\<lambda>status. status AND 0x7f),
      signo = linux_signo\<rparr>"

subsection \<open>get_signal_name\<close>

text \<open>The cases of the \<open>switch\<close>, in the order of the source; \<open>_HANDLE_SIG (sig)\<close>
  returns the name of the macro as a string.\<close>

definition handled_signals :: "posix_signal list" where
  "handled_signals =
     [SIGHUP, SIGINT, SIGQUIT, SIGILL, SIGABRT, SIGFPE, SIGKILL, SIGSEGV, SIGPIPE, SIGALRM,
      SIGTERM, SIGUSR1, SIGUSR2, SIGCHLD, SIGCONT, SIGSTOP, SIGTSTP, SIGTTIN, SIGTTOU, SIGBUS,
      SIGPOLL, SIGPROF, SIGSYS, SIGTRAP, SIGURG, SIGVTALRM, SIGXCPU, SIGXFSZ]"

fun signal_name :: "posix_signal \<Rightarrow> string" where
  "signal_name SIGHUP = ''SIGHUP''"
| "signal_name SIGINT = ''SIGINT''"
| "signal_name SIGQUIT = ''SIGQUIT''"
| "signal_name SIGILL = ''SIGILL''"
| "signal_name SIGABRT = ''SIGABRT''"
| "signal_name SIGFPE = ''SIGFPE''"
| "signal_name SIGKILL = ''SIGKILL''"
| "signal_name SIGSEGV = ''SIGSEGV''"
| "signal_name SIGPIPE = ''SIGPIPE''"
| "signal_name SIGALRM = ''SIGALRM''"
| "signal_name SIGTERM = ''SIGTERM''"
| "signal_name SIGUSR1 = ''SIGUSR1''"
| "signal_name SIGUSR2 = ''SIGUSR2''"
| "signal_name SIGCHLD = ''SIGCHLD''"
| "signal_name SIGCONT = ''SIGCONT''"
| "signal_name SIGSTOP = ''SIGSTOP''"
| "signal_name SIGTSTP = ''SIGTSTP''"
| "signal_name SIGTTIN = ''SIGTTIN''"
| "signal_name SIGTTOU = ''SIGTTOU''"
| "signal_name SIGBUS = ''SIGBUS''"
| "signal_name SIGPOLL = ''SIGPOLL''"
| "signal_name SIGPROF = ''SIGPROF''"
| "signal_name SIGSYS = ''SIGSYS''"
| "signal_name SIGTRAP = ''SIGTRAP''"
| "signal_name SIGURG = ''SIGURG''"
| "signal_name SIGVTALRM = ''SIGVTALRM''"
| "signal_name SIGXCPU = ''SIGXCPU''"
| "signal_name SIGXFSZ = ''SIGXFSZ''"

definition get_signal_name :: "platform \<Rightarrow> int \<Rightarrow> string" where
  "get_signal_name P signal_number =
     (case find (\<lambda>sig. signo P sig = signal_number) handled_signals of
        Some sig \<Rightarrow> signal_name sig
      | None \<Rightarrow> ''UNKNOWN_SIGNAL'')"

subsection \<open>The job and the world around it\<close>

text \<open>A \<open>GError\<close>: the name of its domain (what \<open>g_quark_to_string\<close> gives), the code and
  the message.\<close>

record GError =
  domain :: string
  code :: int
  message :: string

text \<open>What \<open>g_cancellable_set_error_if_cancelled\<close> sets on a cancelled token:
  \<open>G_IO_ERROR_CANCELLED\<close> of GLib's \<open>G_IO_ERROR\<close> domain.\<close>

definition cancelled_error :: GError where
  "cancelled_error =
     \<lparr>domain = ''g-io-error-quark'', code = 19, message = ''Operation was cancelled''\<rparr>"

text \<open>\<open>g_prefix_error\<close> puts the text in front of the message.\<close>

definition g_prefix_error :: "string \<Rightarrow> GError \<Rightarrow> GError" where
  "g_prefix_error prefix e = e\<lparr>message := prefix @ message e\<rparr>"

text \<open>Pointers to objects of GLib: an event source of the main loop (a child watch on a
  process, a watch on a descriptor), a channel on a descriptor, the cancellable of the
  caller or the one the job made for itself.\<close>

datatype GSource = ChildWatch int | IOWatch int

datatype GIOChannel = Channel int

datatype GCancellable = CallerCancellable | OwnCancellable

record UDisksSpawnedJob =
  command_line :: "string option"
  cancellable :: "GCancellable option"
  cancellable_handler_id :: nat
  main_context :: "nat option"
  input_string :: "string option"
  input_string_cursor :: "nat option"
  child_pid :: int
  child_stdin_fd :: int
  child_stdout_fd :: int
  child_stderr_fd :: int
  child_stdin_channel :: "GIOChannel option"
  child_stdout_channel :: "GIOChannel option"
  child_stderr_channel :: "GIOChannel option"
  child_watch_source :: "GSource option"
  child_stdin_source :: "GSource option"
  child_stdout_source :: "GSource option"
  child_stderr_source :: "GSource option"
  child_stdout :: "string option"
  child_stderr :: "string option"

text \<open>\<open>input_string_cursor\<close> points into \<open>input_string\<close>: it is the offset from its start.\<close>

text \<open>The calls by which the job acts on the system and on GLib's objects, in the order
  they are made. \<open>GFree\<close> records the bytes a block holds when it is released.\<close>

datatype memblock = CommandLineBlock | InputStringBlock

datatype effect =
    Kill int posix_signal
  | Close int
  | SourceDestroy GSource
  | ChannelUnref GIOChannel
  | StringFree string
  | CancellableDisconnect nat
  | CancellableUnref GCancellable
  | MainContextUnref nat
  | GFree memblock string

text \<open>One emission of the \<open>spawned-job-completed\<close> signal: the error, the status, the
  standard output and the standard error.\<close>

type_synonym completed_args = "GError option \<times> int \<times> string option \<times> string option"

text \<open>An idle source made by \<open>emit_completed_with_error_in_idle\<close>: the main context
  \<open>g_source_attach\<close> has attached it to (\<open>None\<close> for \<open>NULL\<close>, the global default context)
  and the error of its \<open>EmitCompletedData\<close>. The loop of that context runs its callback.\<close>

type_synonym idle_source = "nat option \<times> GError"

text \<open>
  The world: the job; whether its cancellable has been cancelled; the idle sources
  attached by \<open>emit_completed_with_error_in_idle\<close>, oldest first; the child watches
  attached by
  \<open>udisks_spawned_job_release_resources\<close>; the bytes written to the child's standard
  input; the emissions of \<open>spawned-job-completed\<close> and of the \<open>completed\<close> signal of
  \<open>UDisksJob\<close>; the effects; and whether the process has dereferenced \<open>NULL\<close>.
  The sources the job itself holds are attached exactly as long as its fields point to
  them. The caller keeps its reference to the job: \<open>udisks_spawned_job_finalize\<close> is
  modelled on its own.
\<close>

record world =
  job :: UDisksSpawnedJob
  token_cancelled :: bool
  idle_sources :: "idle_source list"
  reap_sources :: "int list"
  stdin_pipe :: string
  spawned_job_completed :: "completed_args list"
  job_completed :: "(bool \<times> string) list"
  effects :: "effect list"
  crashed :: bool

subsection \<open>udisks_spawned_job_spawned_job_completed_default\<close>

definition backtick :: char where
  "backtick = CHR 0x60"

definition apostrophe :: char where
  "apostrophe = CHR 0x27"

definition newline :: char where
  "newline = CHR 0x0A"

text \<open>\<open>printf\<close>'s \<open>%s\<close>; glibc prints \<open>(null)\<close> for \<open>NULL\<close>.\<close>

definition printf_s :: "string option \<Rightarrow> string" where
  "printf_s p = (case p of None \<Rightarrow> ''(null)'' | Some s \<Rightarrow> cstr s)"

text \<open>
  The default handler of the signal. The result is the pair \<open>(success, message)\<close> it
  passes to \<open>udisks_job_emit_completed\<close>; \<open>None\<close> when it reads \<open>standard_output->str\<close> or
  \<open>standard_error->str\<close> through a \<open>NULL\<close> pointer.
\<close>

definition udisks_spawned_job_spawned_job_completed_default ::
    "platform \<Rightarrow> UDisksSpawnedJob \<Rightarrow> GError option \<Rightarrow> int \<Rightarrow> string option \<Rightarrow> string option
       \<Rightarrow> (bool \<times> string) option" where
  "udisks_spawned_job_spawned_job_completed_default P j error status standard_output standard_error =
     (case error of
        Some e \<Rightarrow>
          Some (False,
            ''Failed to execute command-line '' @ [backtick] @ printf_s (command_line j)
              @ [apostrophe] @ '': '' @ cstr (message e) @ '' ('' @ cstr (domain e) @ '', ''
              @ printf_d (code e) @ '')'')
      | None \<Rightarrow>
          if WIFEXITED P status \<and> WEXITSTATUS P status = 0 then Some (True, [])
          else
            (case (standard_output, standard_error) of
               (Some out, Some err) \<Rightarrow>
                 Some (False,
                   (if WIFEXITED P status then
                      ''Command-line '' @ [backtick] @ printf_s (command_line j) @ [apostrophe]
                        @ '' exited with non-zero exit status '' @ printf_d (WEXITSTATUS P status)
                        @ ''.'' @ [newline]
                    else if WIFSIGNALED P status then
                      ''Command-line '' @ [backtick] @ printf_s (command_line j) @ [apostrophe]
                        @ '' was signaled with signal '' @ get_signal_name P (WTERMSIG P status)
                        @ '' ('' @ printf_d (WTERMSIG P status) @ '').'' @ [newline]
                    else [])
                   @ ''stdout: '' @ [backtick] @ cstr out @ [apostrophe, newline]
                   @ ''stderr: '' @ [backtick] @ cstr err @ [apostrophe])
             | _ \<Rightarrow> None))"

text \<open>
  \<open>g_signal_emit\<close> of \<open>spawned-job-completed\<close>. The signal is \<open>G_SIGNAL_RUN_LAST\<close> with
  the accumulator \<open>g_signal_accumulator_true_handled\<close>: the default handler runs after the
  subscribers' handlers, unless one of them returned \<open>TRUE\<close> (\<open>handled\<close>).
\<close>

definition g_signal_emit_completed ::
    "platform \<Rightarrow> bool \<Rightarrow> completed_args \<Rightarrow> world \<Rightarrow> world" where
  "g_signal_emit_completed P handled args w =
     (let w1 = w\<lparr>spawned_job_completed := spawned_job_completed w @ [args]\<rparr>
      in if handled then w1
         else
           (case args of (error, status, standard_output, standard_error) \<Rightarrow>
              (case udisks_spawned_job_spawned_job_completed_default P (job w1) error status
                      standard_output standard_error of
                 None \<Rightarrow> w1\<lparr>crashed := True\<rparr>
               | Some c \<Rightarrow> w1\<lparr>job_completed := job_completed w1 @ [c]\<rparr>)))"

subsection \<open>The idle callback and the cancellation handler\<close>

text \<open>\<open>emit_completed_with_error_in_idle\<close> attaches an idle source that holds a copy of
  the error to \<open>job->main_context\<close>; \<open>g_return_if_fail (error != NULL)\<close> returns without
  one.\<close>

definition emit_completed_with_error_in_idle :: "GError option \<Rightarrow> world \<Rightarrow> world" where
  "emit_completed_with_error_in_idle error w =
     (case error of
        None \<Rightarrow> w
      | Some e \<Rightarrow> w\<lparr>idle_sources := idle_sources w @ [(main_context (job w), e)]\<rparr>)"

text \<open>The callback of the idle source; it returns \<open>FALSE\<close>, so the source is removed.\<close>

definition emit_completed_with_error_in_idle_cb :: "platform \<Rightarrow> bool \<Rightarrow> GError \<Rightarrow> world \<Rightarrow> world" where
  "emit_completed_with_error_in_idle_cb P handled e w =
     g_signal_emit_completed P handled (Some e, 0, None, None) w"

definition g_cancellable_set_error_if_cancelled :: "world \<Rightarrow> GError option" where
  "g_cancellable_set_error_if_cancelled w =
     (if token_cancelled w then Some cancelled_error else None)"

definition on_cancelled :: "world \<Rightarrow> world" where
  "on_cancelled w =
     emit_completed_with_error_in_idle (g_cancellable_set_error_if_cancelled w) w"

subsection \<open>The I/O callbacks\<close>

text \<open>\<open>g_io_channel_read_chars\<close> into a buffer of 1024 bytes, appended to the
  \<open>GString\<close>; \<open>bytes\<close> is what the pipe holds.\<close>

definition read_child_stderr :: "string \<Rightarrow> world \<Rightarrow> bool \<times> world" where
  "read_child_stderr bytes w =
     (True, w\<lparr>job := (job w)\<lparr>child_stderr :=
        map_option (\<lambda>s. s @ take 1024 bytes) (child_stderr (job w))\<rparr>\<rparr>)"

definition read_child_stdout :: "string \<Rightarrow> world \<Rightarrow> bool \<times> world" where
  "read_child_stdout bytes w =
     (True, w\<lparr>job := (job w)\<lparr>child_stdout :=
        map_option (\<lambda>s. s @ take 1024 bytes) (child_stdout (job w))\<rparr>\<rparr>)"

text \<open>The bytes from the cursor to the end of the input string; none when the cursor is
  \<open>NULL\<close>.\<close>

definition remaining_input :: "UDisksSpawnedJob \<Rightarrow> string" where
  "remaining_input j =
     (case (input_string j, input_string_cursor j) of
        (Some s, Some off) \<Rightarrow> drop off (cstr s)
      | _ \<Rightarrow> [])"

text \<open>
  \<open>write_child_stdin\<close>. \<open>g_io_channel_write_chars\<close> is asked to write
  \<open>strlen (input_string_cursor)\<close> bytes and reports in \<open>bytes_written\<close> how many it took:
  at most \<open>room\<close>, the number of bytes the channel accepts at this call. The result is
  the callback's return value (\<open>TRUE\<close>: keep the source) and the new world.
\<close>

definition write_child_stdin :: "nat \<Rightarrow> world \<Rightarrow> bool \<times> world" where
  "write_child_stdin room w =
     (let j = job w
      in if input_string_cursor j = None \<or> remaining_input j = [] then
           (False,
            w\<lparr>job := j\<lparr>child_stdin_channel := None, child_stdin_source := None,
                       child_stdin_fd := - 1\<rparr>,
              effects := effects w
                @ (case child_stdin_channel j of None \<Rightarrow> [] | Some c \<Rightarrow> [ChannelUnref c])
                @ (case child_stdin_source j of None \<Rightarrow> [] | Some s \<Rightarrow> [SourceDestroy s])
                @ [Close (child_stdin_fd j)]\<rparr>)
         else
           (let bytes_written = min room (length (remaining_input j))
            in (True,
                w\<lparr>job := j\<lparr>input_string_cursor :=
                       map_option (\<lambda>off. off + bytes_written) (input_string_cursor j)\<rparr>,
                  stdin_pipe := stdin_pipe w @ take bytes_written (remaining_input j)\<rparr>)))"

subsection \<open>udisks_spawned_job_release_resources\<close>

text \<open>One definition for each guarded block of the function, in its order.\<close>

definition release_child_watch_source :: "world \<Rightarrow> world" where
  "release_child_watch_source w =
     (case child_watch_source (job w) of
        None \<Rightarrow> w
      | Some s \<Rightarrow> w\<lparr>job := (job w)\<lparr>child_watch_source := None\<rparr>,
                   effects := effects w @ [SourceDestroy s]\<rparr>)"

text \<open>The child is sent \<open>SIGTERM\<close> and a child watch of its own is attached to reap it.\<close>

definition release_child_pid :: "world \<Rightarrow> world" where
  "release_child_pid w =
     (if child_pid (job w) \<noteq> 0 then
        w\<lparr>job := (job w)\<lparr>child_pid := 0\<rparr>,
          reap_sources := reap_sources w @ [child_pid (job w)],
          effects := effects w @ [Kill (child_pid (job w)) SIGTERM]\<rparr>
      else w)"

definition release_child_stdout :: "world \<Rightarrow> world" where
  "release_child_stdout w =
     (case child_stdout (job w) of
        None \<Rightarrow> w
      | Some s \<Rightarrow> w\<lparr>job := (job w)\<lparr>child_stdout := None\<rparr>,
                   effects := effects w @ [StringFree s]\<rparr>)"

definition release_child_stderr :: "world \<Rightarrow> world" where
  "release_child_stderr w =
     (case child_stderr (job w) of
        None \<Rightarrow> w
      | Some s \<Rightarrow> w\<lparr>job := (job w)\<lparr>child_stderr := None\<rparr>,
                   effects := effects w @ [StringFree s]\<rparr>)"

definition release_child_stdin_channel :: "world \<Rightarrow> world" where
  "release_child_stdin_channel w =
     (case child_stdin_channel (job w) of
        None \<Rightarrow> w
      | Some c \<Rightarrow> w\<lparr>job := (job w)\<lparr>child_stdin_channel := None\<rparr>,
                   effects := effects w @ [ChannelUnref c]\<rparr>)"

definition release_child_stdout_channel :: "world \<Rightarrow> world" where
  "release_child_stdout_channel w =
     (case child_stdout_channel (job w) of
        None \<Rightarrow> w
      | Some c \<Rightarrow> w\<lparr>job := (job w)\<lparr>child_stdout_channel := None\<rparr>,
                   effects := effects w @ [ChannelUnref c]\<rparr>)"

definition release_child_stderr_channel :: "world \<Rightarrow> world" where
  "release_child_stderr_channel w =
     (case child_stderr_channel (job w) of
        None \<Rightarrow> w
      | Some c \<Rightarrow> w\<lparr>job := (job w)\<lparr>child_stderr_channel := None\<rparr>,
                   effects := effects w @ [ChannelUnref c]\<rparr>)"

definition release_child_stdin_source :: "world \<Rightarrow> world" where
  "release_child_stdin_source w =
     (case child_stdin_source (job w) of
        None \<Rightarrow> w
      | Some s \<Rightarrow> w\<lparr>job := (job w)\<lparr>child_stdin_source := None\<rparr>,
                   effects := effects w @ [SourceDestroy s]\<rparr>)"

definition release_child_stdout_source :: "world \<Rightarrow> world" where
  "release_child_stdout_source w =
     (case child_stdout_source (job w) of
        None \<Rightarrow> w
      | Some s \<Rightarrow> w\<lparr>job := (job w)\<lparr>child_stdout_source := None\<rparr>,
                   effects := effects w @ [SourceDestroy s]\<rparr>)"

definition release_child_stderr_source :: "world \<Rightarrow> world" where
  "release_child_stderr_source w =
     (case child_stderr_source (job w) of
        None \<Rightarrow> w
      | Some s \<Rightarrow> w\<lparr>job := (job w)\<lparr>child_stderr_source := None\<rparr>,
                   effects := effects w @ [SourceDestroy s]\<rparr>)"

definition release_child_stdin_fd :: "world \<Rightarrow> world" where
  "release_child_stdin_fd w =
     (if child_stdin_fd (job w) \<noteq> - 1 then
        w\<lparr>job := (job w)\<lparr>child_stdin_fd := - 1\<rparr>,
          effects := effects w @ [Close (child_stdin_fd (job w))]\<rparr>
      else w)"

definition release_child_stdout_fd :: "world \<Rightarrow> world" where
  "release_child_stdout_fd w =
     (if child_stdout_fd (job w) \<noteq> - 1 then
        w\<lparr>job := (job w)\<lparr>child_stdout_fd := - 1\<rparr>,
          effects := effects w @ [Close (child_stdout_fd (job w))]\<rparr>
      else w)"

definition release_child_stderr_fd :: "world \<Rightarrow> world" where
  "release_child_stderr_fd w =
     (if child_stderr_fd (job w) \<noteq> - 1 then
        w\<lparr>job := (job w)\<lparr>child_stderr_fd := - 1\<rparr>,
          effects := effects w @ [Close (child_stderr_fd (job w))]\<rparr>
      else w)"

definition release_cancellable_handler :: "world \<Rightarrow> world" where
  "release_cancellable_handler w =
     (if cancellable_handler_id (job w) > 0 then
        w\<lparr>job := (job w)\<lparr>cancellable_handler_id := 0\<rparr>,
          effects := effects w @ [CancellableDisconnect (cancellable_handler_id (job w))]\<rparr>
      else w)"

definition release_cancellable :: "world \<Rightarrow> world" where
  "release_cancellable w =
     (case cancellable (job w) of
        None \<Rightarrow> w
      | Some c \<Rightarrow> w\<lparr>job := (job w)\<lparr>cancellable := None\<rparr>,
                   effects := effects w @ [CancellableUnref c]\<rparr>)"

definition udisks_spawned_job_release_resources :: "world \<Rightarrow> world" where
  "udisks_spawned_job_release_resources w =
     (release_cancellable (release_cancellable_handler
       (release_child_stderr_fd (release_child_stdout_fd (release_child_stdin_fd
         (release_child_stderr_source (release_child_stdout_source (release_child_stdin_source
           (release_child_stderr_channel (release_child_stdout_channel
             (release_child_stdin_channel
               (release_child_stderr (release_child_stdout
                 (release_child_pid (release_child_watch_source w)))))))))))))))"

subsection \<open>child_watch_cb\<close>

text \<open>
  \<open>g_io_channel_read_to_end\<close> gives the rest of a pipe when its status is
  \<open>G_IO_STATUS_NORMAL\<close> (\<open>Some\<close>); on a \<open>NULL\<close> channel GLib returns an error. When the
  default handler has dereferenced \<open>NULL\<close>, nothing after the emission runs.
\<close>

definition child_watch_cb ::
    "platform \<Rightarrow> int \<Rightarrow> string option \<Rightarrow> string option \<Rightarrow> bool \<Rightarrow> world \<Rightarrow> world" where
  "child_watch_cb P status stdout_rest stderr_rest handled w =
     (let j = job w;
          j1 = (case (child_stdout_channel j, stdout_rest) of
                  (Some c, Some buf) \<Rightarrow> j\<lparr>child_stdout := map_option (\<lambda>s. s @ buf) (child_stdout j)\<rparr>
                | _ \<Rightarrow> j);
          j2 = (case (child_stderr_channel j1, stderr_rest) of
                  (Some c, Some buf) \<Rightarrow> j1\<lparr>child_stderr := map_option (\<lambda>s. s @ buf) (child_stderr j1)\<rparr>
                | _ \<Rightarrow> j1);
          w1 = g_signal_emit_completed P handled (None, status, child_stdout j2, child_stderr j2)
                 (w\<lparr>job := j2\<rparr>)
      in if crashed w1 then w1
         else udisks_spawned_job_release_resources
                (w1\<lparr>job := (job w1)\<lparr>child_pid := 0, child_watch_source := None\<rparr>\<rparr>))"

subsection \<open>Construction\<close>

text \<open>
  What the constructing thread and GLib give to \<open>udisks_spawned_job_constructed\<close>: the
  thread-default main context (\<open>None\<close>: the global default), the handler id
  \<open>g_cancellable_connect\<close> returns (never 0: the successor of \<open>handler_serial\<close>), the result of
  \<open>g_shell_parse_argv\<close> on a command line, and the result of \<open>g_spawn_async_with_pipes\<close> on
  the argument vector: an error, or the process id and the descriptors of the three pipes.
\<close>

record spawn_env =
  thread_default_context :: "nat option"
  handler_serial :: nat
  shell_parse_argv :: "string \<Rightarrow> GError + string list"
  spawn_async_with_pipes :: "string list \<Rightarrow> GError + (int \<times> int \<times> int \<times> int)"

text \<open>\<open>udisks_spawned_job_init\<close> on the zero-filled instance.\<close>

definition udisks_spawned_job_init :: UDisksSpawnedJob where
  "udisks_spawned_job_init =
     \<lparr>command_line = None, cancellable = None, cancellable_handler_id = 0,
      main_context = None, input_string = None, input_string_cursor = None,
      child_pid = 0, child_stdin_fd = - 1, child_stdout_fd = - 1, child_stderr_fd = - 1,
      child_stdin_channel = None, child_stdout_channel = None, child_stderr_channel = None,
      child_watch_source = None, child_stdin_source = None, child_stdout_source = None,
      child_stderr_source = None, child_stdout = None, child_stderr = None\<rparr>"

text \<open>The part of \<open>udisks_spawned_job_constructed\<close> after a successful spawn.\<close>

definition attach_child :: "int \<times> int \<times> int \<times> int \<Rightarrow> UDisksSpawnedJob \<Rightarrow> UDisksSpawnedJob" where
  "attach_child r j =
     (case r of (pid, stdin_fd, stdout_fd, stderr_fd) \<Rightarrow>
        (let j1 = j\<lparr>child_pid := pid,
                    child_stdin_fd := (if input_string j \<noteq> None then stdin_fd else child_stdin_fd j),
                    child_stdout_fd := stdout_fd,
                    child_stderr_fd := stderr_fd\<rparr>;
             j2 = j1\<lparr>child_watch_source := Some (ChildWatch (child_pid j1))\<rparr>;
             j3 = (if child_stdin_fd j2 \<noteq> - 1 then
                     j2\<lparr>input_string_cursor := map_option (\<lambda>s. 0) (input_string j2),
                        child_stdin_channel := Some (Channel (child_stdin_fd j2)),
                        child_stdin_source := Some (IOWatch (child_stdin_fd j2))\<rparr>
                   else j2)
         in j3\<lparr>child_stdout := Some [],
               child_stdout_channel := Some (Channel (child_stdout_fd j3)),
               child_stdout_source := Some (IOWatch (child_stdout_fd j3)),
               child_stderr := Some [],
               child_stderr_channel := Some (Channel (child_stderr_fd j3)),
               child_stderr_source := Some (IOWatch (child_stderr_fd j3))\<rparr>))"

text \<open>On a \<open>NULL\<close> command line \<open>g_shell_parse_argv\<close> fails without setting the error, and
  \<open>emit_completed_with_error_in_idle\<close> returns at once.\<close>

definition udisks_spawned_job_constructed :: "spawn_env \<Rightarrow> world \<Rightarrow> world" where
  "udisks_spawned_job_constructed env w =
     (let j = job w;
          j1 = j\<lparr>cancellable := (case cancellable j of None \<Rightarrow> Some OwnCancellable | Some c \<Rightarrow> Some c),
                 main_context := thread_default_context env\<rparr>;
          w1 = w\<lparr>job := j1\<rparr>
      in case g_cancellable_set_error_if_cancelled w1 of
           Some error \<Rightarrow> emit_completed_with_error_in_idle (Some error) w1
         | None \<Rightarrow>
            (let w2 = w1\<lparr>job := j1\<lparr>cancellable_handler_id := Suc (handler_serial env)\<rparr>\<rparr>
             in case command_line j1 of
                  None \<Rightarrow> emit_completed_with_error_in_idle None w2
                | Some cmd \<Rightarrow>
                   (case shell_parse_argv env cmd of
                      Inl error \<Rightarrow>
                        emit_completed_with_error_in_idle
                          (Some (g_prefix_error
                             (''Error parsing command-line '' @ [backtick] @ cstr cmd
                                @ [apostrophe] @ '': '') error)) w2
                    | Inr child_argv \<Rightarrow>
                       (case spawn_async_with_pipes env child_argv of
                          Inl error \<Rightarrow>
                            emit_completed_with_error_in_idle
                              (Some (g_prefix_error
                                 (''Error spawning command-line '' @ [backtick] @ cstr cmd
                                    @ [apostrophe] @ '': '') error)) w2
                        | Inr r \<Rightarrow> w2\<lparr>job := attach_child r (job w2)\<rparr>))))"

text \<open>
  \<open>udisks_spawned_job_new\<close>: the command line is not \<open>NULL\<close>
  (\<open>g_return_val_if_fail\<close>); the input string may be; \<open>token\<close> is the caller's
  cancellable, with whether it is cancelled already, or \<open>None\<close> for \<open>NULL\<close>. The
  construct properties are copied by \<open>g_value_dup_string\<close>.
\<close>

definition udisks_spawned_job_new ::
    "spawn_env \<Rightarrow> string \<Rightarrow> string option \<Rightarrow> bool option \<Rightarrow> world" where
  "udisks_spawned_job_new env cmd input token =
     udisks_spawned_job_constructed env
       \<lparr>job = udisks_spawned_job_init
                \<lparr>command_line := g_strdup (Some cmd),
                 input_string := g_strdup input,
                 cancellable := map_option (\<lambda>b. CallerCancellable) token\<rparr>,
        token_cancelled = (token = Some True),
        idle_sources = [], reap_sources = [], stdin_pipe = [],
        spawned_job_completed = [], job_completed = [], effects = [], crashed = False\<rparr>"

subsection \<open>udisks_spawned_job_finalize\<close>

text \<open>The input string is overwritten by \<open>memset\<close> over \<open>strlen (input_string)\<close> bytes and
  then released. (The finalizer of the parent class is not part of this file.)\<close>

definition udisks_spawned_job_finalize :: "world \<Rightarrow> world" where
  "udisks_spawned_job_finalize w =
     (let w1 = udisks_spawned_job_release_resources w;
          j = job w1;
          e1 = (case main_context j of None \<Rightarrow> [] | Some c \<Rightarrow> [MainContextUnref c]);
          e2 = (case command_line j of None \<Rightarrow> [] | Some s \<Rightarrow> [GFree CommandLineBlock s])
      in case input_string j of
           None \<Rightarrow> w1\<lparr>effects := effects w1 @ e1 @ e2\<rparr>
         | Some s \<Rightarrow>
            (let zeroed = memset s NUL (strlen s)
             in w1\<lparr>job := j\<lparr>input_string := Some zeroed\<rparr>,
                   effects := effects w1 @ e1 @ e2 @ [GFree InputStringBlock zeroed]\<rparr>))"

subsection \<open>The main loop\<close>

text \<open>
  What can happen to a constructed job: its cancellable is cancelled
  (\<open>g_cancellable_cancel\<close>, from any thread); the main loop dispatches the oldest idle
  source; the child has exited and the loop dispatches the child watch, with the exit
  status and what is left in the two pipes; the loop dispatches one of the three I/O
  watches. A Boolean says whether a subscriber's handler returns \<open>TRUE\<close> for the
  emission. A source that is not attached is not dispatched, and nothing runs after the
  process has crashed.
\<close>

datatype event =
    TokenTripped
  | IdleDispatched bool
  | ChildExited int "string option" "string option" bool
  | StdinWritable nat
  | StdoutReadable string
  | StderrReadable string

text \<open>\<open>g_cancellable_cancel\<close> does nothing on a cancelled token; otherwise it runs the
  connected handlers, here \<open>on_cancelled\<close> while the job's handler is connected.\<close>

definition g_cancellable_cancel :: "world \<Rightarrow> world" where
  "g_cancellable_cancel w =
     (if token_cancelled w then w
      else (let w1 = w\<lparr>token_cancelled := True\<rparr>
            in if cancellable_handler_id (job w1) > 0 then on_cancelled w1 else w1))"

fun step :: "platform \<Rightarrow> event \<Rightarrow> world \<Rightarrow> world" where
  "step P TokenTripped w = (if crashed w then w else g_cancellable_cancel w)"
| "step P (IdleDispatched handled) w =
     (if crashed w then w
      else (case idle_sources w of
              [] \<Rightarrow> w
            | (c, e) # rest \<Rightarrow>
                emit_completed_with_error_in_idle_cb P handled e (w\<lparr>idle_sources := rest\<rparr>)))"
| "step P (ChildExited status stdout_rest stderr_rest handled) w =
     (if crashed w \<or> child_watch_source (job w) = None then w
      else child_watch_cb P status stdout_rest stderr_rest handled w)"
| "step P (StdinWritable room) w =
     (if crashed w \<or> child_stdin_source (job w) = None then w
      else snd (write_child_stdin room w))"
| "step P (StdoutReadable bytes) w =
     (if crashed w \<or> child_stdout_source (job w) = None then w
      else snd (read_child_stdout bytes w))"
| "step P (StderrReadable bytes) w =
     (if crashed w \<or> child_stderr_source (job w) = None then w
      else snd (read_child_stderr bytes w))"

fun run :: "platform \<Rightarrow> world \<Rightarrow> event list \<Rightarrow> world" where
  "run P w [] = w"
| "run P w (e # es) = run P (step P e w) es"


section \<open>Derived notions used in the statements\<close>


text \<open>The arguments of the emission made for a cancelled token.\<close>

definition cancelled_args :: completed_args where
  "cancelled_args = (Some cancelled_error, 0, None, None)"

text \<open>The job with every resource field at its sentinel, and the effects by which
  \<open>udisks_spawned_job_release_resources\<close> gets a job there.\<close>

definition released_job :: "UDisksSpawnedJob \<Rightarrow> UDisksSpawnedJob" where
  "released_job j =
     j\<lparr>child_watch_source := None, child_pid := 0, child_stdout := None, child_stderr := None,
       child_stdin_channel := None, child_stdout_channel := None, child_stderr_channel := None,
       child_stdin_source := None, child_stdout_source := None, child_stderr_source := None,
       child_stdin_fd := - 1, child_stdout_fd := - 1, child_stderr_fd := - 1,
       cancellable_handler_id := 0, cancellable := None\<rparr>"

definition release_effects :: "UDisksSpawnedJob \<Rightarrow> effect list" where
  "release_effects j =
     (case child_watch_source j of None \<Rightarrow> [] | Some s \<Rightarrow> [SourceDestroy s])
     @ (if child_pid j \<noteq> 0 then [Kill (child_pid j) SIGTERM] else [])
     @ (case child_stdout j of None \<Rightarrow> [] | Some s \<Rightarrow> [StringFree s])
     @ (case child_stderr j of None \<Rightarrow> [] | Some s \<Rightarrow> [StringFree s])
     @ (case child_stdin_channel j of None \<Rightarrow> [] | Some c \<Rightarrow> [ChannelUnref c])
     @ (case child_stdout_channel j of None \<Rightarrow> [] | Some c \<Rightarrow> [ChannelUnref c])
     @ (case child_stderr_channel j of None \<Rightarrow> [] | Some c \<Rightarrow> [ChannelUnref c])
     @ (case child_stdin_source j of None \<Rightarrow> [] | Some s \<Rightarrow> [SourceDestroy s])
     @ (case child_stdout_source j of None \<Rightarrow> [] | Some s \<Rightarrow> [SourceDestroy s])
     @ (case child_stderr_source j of None \<Rightarrow> [] | Some s \<Rightarrow> [SourceDestroy s])
     @ (if child_stdin_fd j \<noteq> - 1 then [Close (child_stdin_fd j)] else [])
     @ (if child_stdout_fd j \<noteq> - 1 then [Close (child_stdout_fd j)] else [])
     @ (if child_stderr_fd j \<noteq> - 1 then [Close (child_stderr_fd j)] else [])
     @ (if cancellable_handler_id j > 0 then [CancellableDisconnect (cancellable_handler_id j)] else [])
     @ (case cancellable j of None \<Rightarrow> [] | Some c \<Rightarrow> [CancellableUnref c])"

text \<open>An environment in which parsing and spawning succeed, for the concrete runs: the
  constructing thread has the main context 1 as its default, the child gets the process
  id 4242 and the pipes the descriptors 5, 6 and 7.\<close>

definition example_env :: spawn_env where
  "example_env =
     \<lparr>thread_default_context = Some 1, handler_serial = 0,
      shell_parse_argv = (\<lambda>cmd. Inr [cmd]),
      spawn_async_with_pipes = (\<lambda>argv. Inr (4242, 5, 6, 7))\<rparr>"

text \<open>A job as \<open>udisks_spawned_job_new ("/bin/sleep 60", NULL, NULL)\<close> sets its
  properties, for the concrete runs of the default handler.\<close>

definition sleep_job :: UDisksSpawnedJob where
  "sleep_job = udisks_spawned_job_init\<lparr>command_line := Some ''/bin/sleep 60''\<rparr>"

text \<open>The process has not dereferenced \<open>NULL\<close>, and a job with a child watch has its two
  output buffers.\<close>

definition well_formed :: "world \<Rightarrow> bool" where
  "well_formed w \<longleftrightarrow>
     \<not> crashed w \<and>
     (child_watch_source (job w) \<noteq> None \<longrightarrow>
        child_stdout (job w) \<noteq> None \<and> child_stderr (job w) \<noteq> None)"

text \<open>An emission without an error carries both buffers.\<close>

definition emission_well_formed :: "completed_args \<Rightarrow> bool" where
  "emission_well_formed a =
     (case a of (error, status, standard_output, standard_error) \<Rightarrow>
        error = None \<longrightarrow> standard_output \<noteq> None \<and> standard_error \<noteq> None)"


definition is_child_exit :: "event \<Rightarrow> bool" where
  "is_child_exit e =
     (case e of ChildExited status stdout_rest stderr_rest handled \<Rightarrow> True | _ \<Rightarrow> False)"

text \<open>The completion for the cancelled token has been emitted, or the idle source that
  will emit it is attached to the main context \<open>c\<close>.\<close>

definition cancelled_pending_or_emitted :: "nat option \<Rightarrow> world \<Rightarrow> bool" where
  "cancelled_pending_or_emitted c w \<longleftrightarrow>
     cancelled_args \<in> set (spawned_job_completed w)
     \<or> (c, cancelled_error) \<in> set (idle_sources w)"

text \<open>
  In the run of \<open>es\<close> from \<open>w\<close>, the token is cancelled at a moment when it is not yet
  cancelled and the handler of the job is connected: \<open>on_cancelled\<close> runs.
\<close>

fun cancelled_while_connected :: "platform \<Rightarrow> world \<Rightarrow> event list \<Rightarrow> bool" where
  "cancelled_while_connected P w [] = False"
| "cancelled_while_connected P w (e # es) =
     ((e = TokenTripped \<and> \<not> token_cancelled w \<and> cancellable_handler_id (job w) > 0)
      \<or> cancelled_while_connected P (step P e w) es)"

text \<open>The effect releases the block of the input string.\<close>

definition releases_input :: "effect \<Rightarrow> bool" where
  "releases_input x = (case x of GFree InputStringBlock bytes \<Rightarrow> True | _ \<Rightarrow> False)"

text \<open>
  The message for a child that died from a signal as the specification words it, to be
  compared with the one of the code:
  \<open>Command-line '<cmd>' was signaled with signal <SYMBOLIC>(<s>).\nstdout: '...'\nstderr: '...'\<close>.
\<close>

definition spec_signaled_message :: "string \<Rightarrow> string \<Rightarrow> int \<Rightarrow> string \<Rightarrow> string \<Rightarrow> string" where
  "spec_signaled_message cmd symbolic s out err =
     ''Command-line '' @ [apostrophe] @ cmd @ [apostrophe] @ '' was signaled with signal ''
       @ symbolic @ ''('' @ printf_d s @ '').'' @ [newline]
       @ ''stdout: '' @ [apostrophe] @ out @ [apostrophe, newline]
       @ ''stderr: '' @ [apostrophe] @ err @ [apostrophe]"

section \<open>The utilities of udisksdaemonutil.c\<close>

lemma digits_of_small: "n < b \<Longrightarrow> digits_of b n = [digit_char n]"
  by (simp add: digits_of.simps)

lemma digits_of_two:
  "2 \<le> b \<Longrightarrow> b \<le> n \<Longrightarrow> n < b * b \<Longrightarrow> digits_of b n = [digit_char (n div b), digit_char (n mod b)]"
  by (subst digits_of.simps) (simp add: digits_of_small less_mult_imp_div_less)

lemma digit_char_0: "digit_char 0 = CHR ''0''"
  by (simp add: digit_char_def)

text \<open>A value in the range of a byte is written with exactly two hexadecimal digits.\<close>

lemma printf_02x_byte:
  assumes "0 \<le> c" and "c < 256"
  shows "printf_02x c = [digit_char (nat c div 16), digit_char (nat c mod 16)]"
proof (cases "nat c < 16")
  case True
  with assms show ?thesis
    by (simp add: printf_02x_def digits_of_small Let_def digit_char_0 [symmetric])
next
  case False
  with assms have "digits_of 16 (nat c) = [digit_char (nat c div 16), digit_char (nat c mod 16)]"
    by (intro digits_of_two) simp_all
  with assms show ?thesis
    by (simp add: printf_02x_def Let_def)
qed

lemma of_char_range: "0 \<le> (of_char ch :: int)" "(of_char ch :: int) < 256"
proof -
  have "(of_char ch :: int) = of_char ch mod 256" by simp
  then show "0 \<le> (of_char ch :: int)" "(of_char ch :: int) < 256"
    by (metis pos_mod_sign zero_less_numeral, metis pos_mod_bound zero_less_numeral)
qed

text \<open>Where \<open>char\<close> is unsigned, and for every byte below 0x80, the escape has two digits.\<close>

lemma escape_byte_two_digits:
  assumes "\<not> char_signed \<or> (of_char ch :: int) < 128"
  shows "escape_byte char_signed ch =
           (if is_alnum_gint (of_char ch) then [ch]
            else [CHR ''_'', digit_char (of_char ch div 16), digit_char (of_char ch mod 16)])"
proof -
  from assms have "gchar_to_gint char_signed ch = of_char ch"
    by (auto simp add: gchar_to_gint_def Let_def)
  then show ?thesis
    by (simp add: escape_byte_def Let_def printf_02x_byte of_char_range)
qed

text \<open>The loop appends the escape of each byte of the C string, in order.\<close>

lemma safe_append_concat:
  "udisks_safe_append_to_object_path char_signed str s
     = str @ concat (map (escape_byte char_signed) (cstr s))"
  by (induction s arbitrary: str) (simp_all add: cstr_def)

text \<open>
  Claim C9 says that every byte that is not an ASCII letter or digit is appended as one
  underscore and exactly two lowercase hexadecimal digits, bytes at or above 0x80
  included. Where plain \<open>char\<close> is signed, \<open>gint c = s[n]\<close> sign-extends such a byte, and
  \<open>%02x\<close> prints the negative \<open>gint\<close> as eight digits: the two bytes of a UTF-8 encoded
  e-acute come out as \<open>_ffffffc3_ffffffa9\<close>.
\<close>

theorem safe_append_high_byte_signed_char:
  "udisks_safe_append_to_object_path True [] [CHR 0xC3, CHR 0xA9] = ''_ffffffc3_ffffffa9''"
  by (simp add: escape_byte_def gchar_to_gint_def is_alnum_gint_def printf_02x_def NUL_def
        digits_of.simps digit_char_def Let_def)

subsection \<open>The string udisks_decode_udev_string returns\<close>

lemma map_of_heap_store: "map_of (heap_store a bytes h) = (map_of h)(a \<mapsto> bytes)"
  by (simp add: heap_store_def)

lemma map_of_heap_free: "map_of (heap_free a h) = (map_of h)(a := None)"
  by (induction h) (auto simp add: heap_free_def)

lemma fst_heap_store: "fst ` set (heap_store a bytes h) = insert a (fst ` set h)"
  by (simp add: heap_store_def)

lemma not_live: "a \<notin> fst ` set h \<Longrightarrow> map_of h a = None"
  by (simp add: map_of_eq_None_iff)

lemma fold_max_ge: "x \<in> set xs \<Longrightarrow> x \<le> fold max xs (m::nat)"
proof (induction xs arbitrary: m)
  case Nil then show ?case by simp
next
  case (Cons y ys)
  have *: "\<And>k. k \<le> fold max ys (k::nat)"
  proof -
    fix k show "k \<le> fold max ys (k::nat)"
      by (induction ys arbitrary: k) (auto intro: order_trans [OF max.cobounded2])
  qed
  from Cons show ?case
    by (auto intro: order_trans [OF max.cobounded1 *])
qed

lemma bump_malloc_fresh: "bump_malloc h \<notin> fst ` set h"
proof
  assume "bump_malloc h \<in> fst ` set h"
  then have "bump_malloc h \<in> set (map fst h)" by simp
  then have "bump_malloc h \<le> fold max (map fst h) 0" by (rule fold_max_ge)
  then show False by (simp add: bump_malloc_def)
qed

lemma cstr_take_cstr: "cstr (take n (cstr s)) = take n (cstr s)"
  by (auto simp add: cstr_def takeWhile_eq_all_conv dest!: in_set_takeD set_takeWhileD)

lemma decode_loop_example:
  "decode_loop (''a'' @ [CHR 0x5C] @ ''x20b'') = ''a b''"
  by code_simp

text \<open>
  Claim C10: on \<open>NULL\<close> \<open>udisks_decode_udev_string\<close> returns \<open>NULL\<close>, not an empty string, and
  allocates nothing. On a pointer to a string it returns a pointer that is not \<open>NULL\<close>, to
  a block that was not live when it was called (so not the argument either); the heap
  it leaves is the heap it found with that one block more, and the block holds, as a C
  string, the decoded bytes up to the first byte that is not valid UTF-8. The string is
  empty when the input is. The allocator never returns a live address.
\<close>

theorem decode_udev_string_null:
  assumes fresh: "\<forall>h. malloc h \<notin> fst ` set h"
  shows "udisks_decode_udev_string malloc end_valid h None = Some (None, h)
    \<and> (map_of h p = Some bytes \<longrightarrow>
         (\<exists>ret h' content.
            udisks_decode_udev_string malloc end_valid h (Some p) = Some (Some ret, h')
            \<and> map_of h ret = None
            \<and> ret \<noteq> p
            \<and> map_of h' = (map_of h)(ret \<mapsto> content)
            \<and> cstr content
                = take (end_valid (cstr (decode_loop bytes))) (cstr (decode_loop bytes))
            \<and> (cstr bytes = [] \<longrightarrow> content = [])))"
proof (intro conjI impI)
  show "udisks_decode_udev_string malloc end_valid h None = Some (None, h)"
    by (simp add: udisks_decode_udev_string_def)
next
  assume live: "map_of h p = Some bytes"
  let ?d = "decode_loop bytes"
  let ?n = "end_valid (cstr ?d)"
  let ?s = "malloc h"
  let ?h1 = "heap_store ?s ?d h"
  let ?ret = "malloc ?h1"
  have s: "map_of h ?s = None" using fresh by (simp add: not_live)
  then have sp: "?s \<noteq> p" using live by auto
  have empty: "cstr bytes = [] \<Longrightarrow> ?d = []"
    by (cases bytes) (auto simp add: cstr_def split: if_splits)
  show "\<exists>ret h' content.
          udisks_decode_udev_string malloc end_valid h (Some p) = Some (Some ret, h')
          \<and> map_of h ret = None \<and> ret \<noteq> p
          \<and> map_of h' = (map_of h)(ret \<mapsto> content)
          \<and> cstr content = take ?n (cstr ?d)
          \<and> (cstr bytes = [] \<longrightarrow> content = [])"
  proof (cases "?n = length (cstr ?d)")
    case True
    then have "udisks_decode_udev_string malloc end_valid h (Some p) = Some (Some ?s, ?h1)"
      using live by (simp add: udisks_decode_udev_string_def Let_def)
    moreover have "map_of ?h1 = (map_of h)(?s \<mapsto> ?d)" by (rule map_of_heap_store)
    moreover have "cstr ?d = take ?n (cstr ?d)" using True by simp
    ultimately show ?thesis using s sp empty by blast
  next
    case False
    let ?c = "g_strndup ?d ?n"
    let ?h2 = "heap_store ?ret ?c ?h1"
    from False have r: "udisks_decode_udev_string malloc end_valid h (Some p)
        = Some (Some ?ret, heap_free ?s ?h2)"
      using live by (simp add: udisks_decode_udev_string_def Let_def)
    have "?ret \<notin> fst ` set ?h1" using fresh by blast
    then have rs: "?ret \<noteq> ?s" and rh: "?ret \<notin> fst ` set h"
      by (simp_all add: fst_heap_store)
    from rh have rn: "map_of h ?ret = None" by (rule not_live)
    then have rp: "?ret \<noteq> p" using live by auto
    have "map_of (heap_free ?s ?h2) = ((map_of h)(?s \<mapsto> ?d, ?ret \<mapsto> ?c))(?s := None)"
      by (simp add: map_of_heap_free map_of_heap_store)
    also have "\<dots> = (map_of h)(?ret \<mapsto> ?c)"
      using rs s by (auto simp add: fun_eq_iff)
    finally have m: "map_of (heap_free ?s ?h2) = (map_of h)(?ret \<mapsto> ?c)" .
    have c: "cstr ?c = take ?n (cstr ?d)"
      by (simp add: g_strndup_def cstr_take_cstr)
    have "cstr bytes = [] \<longrightarrow> ?c = []"
      using empty by (auto simp add: g_strndup_def cstr_def)
    with r rn rp m c show ?thesis by blast
  qed
qed


text \<open>Witness of C10: the heap holds \<open>a\x20b\<close> at the address 1. The result is a new
  block with \<open>a b\<close>; the block at 1 is as it was.\<close>

theorem decode_udev_string_null_witness:
  "udisks_decode_udev_string bump_malloc length [(1, ''a'' @ [CHR 0x5C] @ ''x20b'')] None
     = Some (None, [(1, ''a'' @ [CHR 0x5C] @ ''x20b'')])
   \<and> (\<exists>ret h' content.
         udisks_decode_udev_string bump_malloc length [(1, ''a'' @ [CHR 0x5C] @ ''x20b'')] (Some 1)
           = Some (Some ret, h')
         \<and> ret \<noteq> 1
         \<and> map_of h' 1 = Some (''a'' @ [CHR 0x5C] @ ''x20b'')
         \<and> map_of h' ret = Some content
         \<and> cstr content = ''a b'')"
proof -
  have f: "\<forall>h. bump_malloc h \<notin> fst ` set h" by (simp add: bump_malloc_fresh)
  have c: "cstr ''a b'' = ''a b''" by (simp add: cstr_def NUL_def)
  from decode_udev_string_null [OF f, of length "[(1, ''a'' @ [CHR 0x5C] @ ''x20b'')]" 1
         "''a'' @ [CHR 0x5C] @ ''x20b''"]
  show ?thesis
    by (auto simp add: decode_loop_example c simp del: append.simps)
qed

section \<open>The order of udisksmount.c\<close>

text \<open>
  Claim C8 says that \<open>udisks_mount_compare\<close> is a total order: negative one way exactly when
  positive the other way. The difference of two device numbers is cut to 32 bits: for
  the devices (8, 524288) and (8, 0), that is \<open>dev_t\<close> 0x80000800 and 0x800, mounted at
  the same path, the comparison is negative both ways.
\<close>

theorem mount_compare_negative_both_ways:
  "udisks_mount_compare \<lparr>mount_path = Some ''/mnt'', dev = 0x80000800\<rparr>
                        \<lparr>mount_path = Some ''/mnt'', dev = 0x800\<rparr> < 0
   \<and> udisks_mount_compare \<lparr>mount_path = Some ''/mnt'', dev = 0x800\<rparr>
                          \<lparr>mount_path = Some ''/mnt'', dev = 0x80000800\<rparr> < 0"
  by code_simp

text \<open>Below \<open>2 ^ 31\<close> the difference of two device numbers fits a \<open>gint\<close>, and the comparison
  one way is the negative of the comparison the other way.\<close>

lemma gint_of_dev_difference:
  fixes a b :: "64 word"
  assumes "a < 2 ^ 31" and "b < 2 ^ 31"
  shows "sint (ucast (a - b) :: 32 word) = uint a - uint b"
proof -
  from assms have ra: "uint a < 2 ^ 31" and rb: "uint b < 2 ^ 31"
    by (simp_all add: word_less_def)
  have d: "is_down (ucast :: 64 word \<Rightarrow> 32 word)"
    by (simp add: is_down)
  have "a - b = word_of_int (uint a - uint b)"
    by (rule word_sub_wi)
  then have "(ucast (a - b) :: 32 word) = word_of_int (uint a - uint b)"
    by (simp only: ucast_down_wi [OF d])
  then have "sint (ucast (a - b) :: 32 word) = signed_take_bit 31 (uint a - uint b)"
    by (simp only: sint_sbintrunc') simp
  also have "\<dots> = uint a - uint b"
  proof (rule signed_take_bit_int_eq_self)
    show "- (2 ^ 31) \<le> uint a - uint b" using rb uint_ge_0 [of a] by linarith
    show "uint a - uint b < 2 ^ 31" using ra uint_ge_0 [of b] by linarith
  qed
  finally show ?thesis .
qed

lemma mount_compare_small_devs:
  assumes "dev mount < 2 ^ 31" and "dev other_mount < 2 ^ 31"
  shows "udisks_mount_compare mount other_mount =
           (if g_strcmp0 (mount_path other_mount) (mount_path mount) \<noteq> 0
            then g_strcmp0 (mount_path other_mount) (mount_path mount)
            else uint (dev mount) - uint (dev other_mount))"
  using assms by (simp add: udisks_mount_compare_def Let_def gint_of_dev_difference)


lemma strcmp_antisym: "strcmp a b = - strcmp b a"
  by (induction a b rule: strcmp.induct) auto

lemma g_strcmp0_antisym: "g_strcmp0 p q = - g_strcmp0 q p"
proof (cases p)
  case None
  then show ?thesis by (cases q) (simp_all add: g_strcmp0_def)
next
  case (Some s1)
  show ?thesis
  proof (cases q)
    case None
    with Some show ?thesis by (simp add: g_strcmp0_def)
  next
    case (Some s2)
    with \<open>p = Some s1\<close> strcmp_antisym [of "cstr s1" "cstr s2"] show ?thesis
      by (simp add: g_strcmp0_def)
  qed
qed

lemma mount_compare_antisym_small_devs:
  assumes "dev mount < 2 ^ 31" and "dev other_mount < 2 ^ 31"
  shows "udisks_mount_compare mount other_mount = - udisks_mount_compare other_mount mount"
  using assms g_strcmp0_antisym [of "mount_path other_mount" "mount_path mount"]
  by (simp add: mount_compare_small_devs)


section \<open>Releasing the resources of a job\<close>

text \<open>Each guarded block sets its field to the sentinel, and acts if it was not there.\<close>

lemma release_child_watch_source_eq:
  "release_child_watch_source w =
     w\<lparr>job := (job w)\<lparr>child_watch_source := None\<rparr>,
       effects := effects w @ (case child_watch_source (job w) of None \<Rightarrow> [] | Some x \<Rightarrow> [SourceDestroy x])\<rparr>"
  by (cases "child_watch_source (job w)") (simp_all add: release_child_watch_source_def)

lemma release_child_stdout_eq:
  "release_child_stdout w =
     w\<lparr>job := (job w)\<lparr>child_stdout := None\<rparr>,
       effects := effects w @ (case child_stdout (job w) of None \<Rightarrow> [] | Some x \<Rightarrow> [StringFree x])\<rparr>"
  by (cases "child_stdout (job w)") (simp_all add: release_child_stdout_def)

lemma release_child_stderr_eq:
  "release_child_stderr w =
     w\<lparr>job := (job w)\<lparr>child_stderr := None\<rparr>,
       effects := effects w @ (case child_stderr (job w) of None \<Rightarrow> [] | Some x \<Rightarrow> [StringFree x])\<rparr>"
  by (cases "child_stderr (job w)") (simp_all add: release_child_stderr_def)

lemma release_child_stdin_channel_eq:
  "release_child_stdin_channel w =
     w\<lparr>job := (job w)\<lparr>child_stdin_channel := None\<rparr>,
       effects := effects w @ (case child_stdin_channel (job w) of None \<Rightarrow> [] | Some x \<Rightarrow> [ChannelUnref x])\<rparr>"
  by (cases "child_stdin_channel (job w)") (simp_all add: release_child_stdin_channel_def)

lemma release_child_stdout_channel_eq:
  "release_child_stdout_channel w =
     w\<lparr>job := (job w)\<lparr>child_stdout_channel := None\<rparr>,
       effects := effects w @ (case child_stdout_channel (job w) of None \<Rightarrow> [] | Some x \<Rightarrow> [ChannelUnref x])\<rparr>"
  by (cases "child_stdout_channel (job w)") (simp_all add: release_child_stdout_channel_def)

lemma release_child_stderr_channel_eq:
  "release_child_stderr_channel w =
     w\<lparr>job := (job w)\<lparr>child_stderr_channel := None\<rparr>,
       effects := effects w @ (case child_stderr_channel (job w) of None \<Rightarrow> [] | Some x \<Rightarrow> [ChannelUnref x])\<rparr>"
  by (cases "child_stderr_channel (job w)") (simp_all add: release_child_stderr_channel_def)

lemma release_child_stdin_source_eq:
  "release_child_stdin_source w =
     w\<lparr>job := (job w)\<lparr>child_stdin_source := None\<rparr>,
       effects := effects w @ (case child_stdin_source (job w) of None \<Rightarrow> [] | Some x \<Rightarrow> [SourceDestroy x])\<rparr>"
  by (cases "child_stdin_source (job w)") (simp_all add: release_child_stdin_source_def)

lemma release_child_stdout_source_eq:
  "release_child_stdout_source w =
     w\<lparr>job := (job w)\<lparr>child_stdout_source := None\<rparr>,
       effects := effects w @ (case child_stdout_source (job w) of None \<Rightarrow> [] | Some x \<Rightarrow> [SourceDestroy x])\<rparr>"
  by (cases "child_stdout_source (job w)") (simp_all add: release_child_stdout_source_def)

lemma release_child_stderr_source_eq:
  "release_child_stderr_source w =
     w\<lparr>job := (job w)\<lparr>child_stderr_source := None\<rparr>,
       effects := effects w @ (case child_stderr_source (job w) of None \<Rightarrow> [] | Some x \<Rightarrow> [SourceDestroy x])\<rparr>"
  by (cases "child_stderr_source (job w)") (simp_all add: release_child_stderr_source_def)

lemma release_cancellable_eq:
  "release_cancellable w =
     w\<lparr>job := (job w)\<lparr>cancellable := None\<rparr>,
       effects := effects w @ (case cancellable (job w) of None \<Rightarrow> [] | Some x \<Rightarrow> [CancellableUnref x])\<rparr>"
  by (cases "cancellable (job w)") (simp_all add: release_cancellable_def)

lemma release_child_stdin_fd_eq:
  "release_child_stdin_fd w =
     w\<lparr>job := (job w)\<lparr>child_stdin_fd := - 1\<rparr>,
       effects := effects w @ (if child_stdin_fd (job w) \<noteq> - 1 then [Close (child_stdin_fd (job w))] else [])\<rparr>"
  by (cases "child_stdin_fd (job w) = - 1") (simp_all add: release_child_stdin_fd_def)

lemma release_child_stdout_fd_eq:
  "release_child_stdout_fd w =
     w\<lparr>job := (job w)\<lparr>child_stdout_fd := - 1\<rparr>,
       effects := effects w @ (if child_stdout_fd (job w) \<noteq> - 1 then [Close (child_stdout_fd (job w))] else [])\<rparr>"
  by (cases "child_stdout_fd (job w) = - 1") (simp_all add: release_child_stdout_fd_def)

lemma release_child_stderr_fd_eq:
  "release_child_stderr_fd w =
     w\<lparr>job := (job w)\<lparr>child_stderr_fd := - 1\<rparr>,
       effects := effects w @ (if child_stderr_fd (job w) \<noteq> - 1 then [Close (child_stderr_fd (job w))] else [])\<rparr>"
  by (cases "child_stderr_fd (job w) = - 1") (simp_all add: release_child_stderr_fd_def)

lemma release_child_pid_eq:
  "release_child_pid w =
     w\<lparr>job := (job w)\<lparr>child_pid := 0\<rparr>,
       reap_sources := reap_sources w @ (if child_pid (job w) \<noteq> 0 then [child_pid (job w)] else []),
       effects := effects w @ (if child_pid (job w) \<noteq> 0 then [Kill (child_pid (job w)) SIGTERM] else [])\<rparr>"
  by (cases "child_pid (job w) = 0") (simp_all add: release_child_pid_def)

lemma release_cancellable_handler_eq:
  "release_cancellable_handler w =
     w\<lparr>job := (job w)\<lparr>cancellable_handler_id := 0\<rparr>,
       effects := effects w @ (if cancellable_handler_id (job w) > 0
                              then [CancellableDisconnect (cancellable_handler_id (job w))] else [])\<rparr>"
  by (cases "cancellable_handler_id (job w) = 0") (simp_all add: release_cancellable_handler_def)

lemmas release_steps = release_child_watch_source_eq
  release_child_stdout_eq
  release_child_stderr_eq
  release_child_stdin_channel_eq
  release_child_stdout_channel_eq
  release_child_stderr_channel_eq
  release_child_stdin_source_eq
  release_child_stdout_source_eq
  release_child_stderr_source_eq
  release_cancellable_eq
  release_child_stdin_fd_eq
  release_child_stdout_fd_eq
  release_child_stderr_fd_eq
  release_child_pid_eq
  release_cancellable_handler_eq

lemma release_resources_eq:
  "udisks_spawned_job_release_resources w =
     w\<lparr>job := released_job (job w),
       reap_sources := reap_sources w @ (if child_pid (job w) \<noteq> 0 then [child_pid (job w)] else []),
       effects := effects w @ release_effects (job w)\<rparr>"
  by (simp add: udisks_spawned_job_release_resources_def release_steps released_job_def
        release_effects_def)

lemma release_effects_released [simp]: "release_effects (released_job j) = []"
  by (simp add: release_effects_def released_job_def)

lemma released_job_idem [simp]: "released_job (released_job j) = released_job j"
  by (simp add: released_job_def)

lemma child_pid_released [simp]: "child_pid (released_job j) = 0"
  by (simp add: released_job_def)

text \<open>
  Claim C6: the release routine is idempotent. For every world, whatever the state of
  the job in it (also one in which some resources were never created), releasing twice
  gives the world that releasing once gives: the same job, and no further signal sent,
  descriptor closed, source destroyed or reaping child watch attached.
\<close>

theorem release_resources_idempotent:
  "udisks_spawned_job_release_resources (udisks_spawned_job_release_resources w)
     = udisks_spawned_job_release_resources w"
  by (simp add: release_resources_eq)

section \<open>The default handler\<close>

lemma emit_fields [simp]:
  "spawned_job_completed (g_signal_emit_completed P h a w) = spawned_job_completed w @ [a]"
  "idle_sources (g_signal_emit_completed P h a w) = idle_sources w"
  "job (g_signal_emit_completed P h a w) = job w"
  "token_cancelled (g_signal_emit_completed P h a w) = token_cancelled w"
  "effects (g_signal_emit_completed P h a w) = effects w"
  "reap_sources (g_signal_emit_completed P h a w) = reap_sources w"
  "stdin_pipe (g_signal_emit_completed P h a w) = stdin_pipe w"
  by (simp_all add: g_signal_emit_completed_def Let_def split: prod.splits option.splits)

lemma default_error_Some:
  "\<exists>m. udisks_spawned_job_spawned_job_completed_default P j (Some e) st out err = Some (False, m)"
  by (simp add: udisks_spawned_job_spawned_job_completed_default_def)

lemma default_buffers_Some:
  "\<exists>c. udisks_spawned_job_spawned_job_completed_default P j None st (Some out) (Some err) = Some c"
  by (auto simp add: udisks_spawned_job_spawned_job_completed_default_def)

lemma emit_crashed_error [simp]:
  "crashed (g_signal_emit_completed P h (Some e, st, out, err) w) = crashed w"
  using default_error_Some [of P "job w" e st out err]
  by (auto simp add: g_signal_emit_completed_def Let_def)

lemma emit_crashed_buffers [simp]:
  "crashed (g_signal_emit_completed P h (None, st, Some out, Some err) w) = crashed w"
  using default_buffers_Some [of P "job w" st out err]
  by (auto simp add: g_signal_emit_completed_def Let_def)

text \<open>
  Claim C2: when no subscriber marks the completion handled, the default handler emits
  one \<open>completed\<close> event of the job, whose \<open>success\<close> is true if and only if the error is
  \<open>NULL\<close>, \<open>WIFEXITED\<close> holds of the status and \<open>WEXITSTATUS\<close> is 0, and then the message is
  empty; in every other case \<open>success\<close> is false. The hypothesis is what every emission of
  a job satisfies (\<open>run_emissions_well_formed\<close> below): without an error, the two buffers
  are not \<open>NULL\<close>.
\<close>

theorem default_handler_success_iff:
  assumes "error = None \<longrightarrow> standard_output \<noteq> None \<and> standard_error \<noteq> None"
  shows "\<exists>msg. job_completed (g_signal_emit_completed P False
                    (error, status, standard_output, standard_error) w)
           = job_completed w
               @ [(error = None \<and> WIFEXITED P status \<and> WEXITSTATUS P status = 0, msg)]
         \<and> (error = None \<and> WIFEXITED P status \<and> WEXITSTATUS P status = 0 \<longrightarrow> msg = [])"
  using assms
  by (auto simp add: g_signal_emit_completed_def Let_def
        udisks_spawned_job_spawned_job_completed_default_def split: option.splits)

lemma true_world:
  "job_completed (udisks_spawned_job_new example_env ''/bin/true'' None None) = []"
  by code_simp

lemma linux_status_0: "WIFEXITED linux_platform 0" "WEXITSTATUS linux_platform 0 = 0"
  by (simp_all add: linux_platform_def)

lemma linux_status_256: "WIFEXITED linux_platform 256" "WEXITSTATUS linux_platform 256 = 1"
  by (simp_all add: linux_platform_def)

text \<open>Witness of C2: \<open>/bin/true\<close> exits with the status 0 and \<open>/bin/false\<close> with the status
  256 (exit code 1), both with empty output.\<close>

theorem default_handler_success_iff_witness:
  "job_completed (g_signal_emit_completed linux_platform False (None, 0, Some [], Some [])
      (udisks_spawned_job_new example_env ''/bin/true'' None None)) = [(True, [])]
   \<and> (\<exists>msg. job_completed (g_signal_emit_completed linux_platform False (None, 256, Some [], Some [])
      (udisks_spawned_job_new example_env ''/bin/true'' None None)) = [(False, msg)])"
  using default_handler_success_iff [of None "Some []" "Some []" linux_platform 0
          "udisks_spawned_job_new example_env ''/bin/true'' None None"]
        default_handler_success_iff [of None "Some []" "Some []" linux_platform 256
          "udisks_spawned_job_new example_env ''/bin/true'' None None"]
  by (auto simp add: true_world linux_status_0 linux_status_256)

subsection \<open>The message for a signal\<close>

lemma linux_status_15:
  "\<not> WIFEXITED linux_platform 15" "WIFSIGNALED linux_platform 15" "WTERMSIG linux_platform 15 = 15"
  by (simp_all add: linux_platform_def)

lemma linux_signal_15: "get_signal_name linux_platform 15 = ''SIGTERM''"
  by (simp add: get_signal_name_def linux_platform_def handled_signals_def)

lemma printf_d_15: "printf_d 15 = ''15''"
  by (simp add: printf_d_def digits_of.simps digit_char_def)

text \<open>
  Claim C4 as stated fails: for a child killed by \<open>SIGTERM\<close> (status 15) the message of
  the code is not the text of the specification (the code opens each quotation with a
  backtick and writes a space before the parenthesis), and the table of
  \<open>get_signal_name\<close> has 28 entries, not 27.
\<close>

theorem signaled_message_not_spec_format:
  "udisks_spawned_job_spawned_job_completed_default linux_platform sleep_job None 15
       (Some ''out'') (Some ''err'')
     \<noteq> Some (False, spec_signaled_message ''/bin/sleep 60'' ''SIGTERM'' 15 ''out'' ''err'')
   \<and> length handled_signals \<noteq> 27"
  by (simp add: udisks_spawned_job_spawned_job_completed_default_def linux_status_15
        linux_signal_15 printf_d_15 spec_signaled_message_def sleep_job_def
        udisks_spawned_job_init_def printf_s_def cstr_def NUL_def backtick_def apostrophe_def
        newline_def handled_signals_def)

lemma find_distinct_map:
  "distinct (map f xs) \<Longrightarrow> x \<in> set xs \<Longrightarrow> find (\<lambda>s. f s = f x) xs = Some x"
  by (induction xs) (auto simp: image_iff)

lemma all_signals_handled: "sig \<in> set handled_signals"
  by (cases sig) (simp_all add: handled_signals_def)

lemma get_signal_name_handled:
  "distinct (map (signo P) handled_signals) \<Longrightarrow> get_signal_name P (signo P sig) = signal_name sig"
  by (simp add: get_signal_name_def find_distinct_map all_signals_handled)

lemma get_signal_name_unknown:
  assumes "\<forall>sig. signo P sig \<noteq> n"
  shows "get_signal_name P n = ''UNKNOWN_SIGNAL''"
proof -
  from assms have "find (\<lambda>sig. signo P sig = n) handled_signals = None"
    by (simp add: find_None_iff)
  then show ?thesis by (simp add: get_signal_name_def)
qed

text \<open>
  Claim C4, amended: for a completion without error whose status is that of a child that
  died from a signal (\<open>WIFSIGNALED\<close>, not \<open>WIFEXITED\<close>), the default handler reports
  failure with the message
  \<open>Command-line `<cmd>' was signaled with signal <SYMBOLIC> (<s>).\nstdout: `<stdout>'\nstderr: `<stderr>'\<close>,
  where \<open><s>\<close> is \<open>WTERMSIG\<close> of the status and \<open><SYMBOLIC>\<close> is \<open>get_signal_name\<close> of it: the
  name of the signal, from a table of 28 entries (the case labels of a \<open>switch\<close> are
  distinct), and \<open>UNKNOWN_SIGNAL\<close> for every number that is not the number of one of
  the 28.
\<close>

theorem signaled_message_format:
  assumes "\<not> WIFEXITED P status" and "WIFSIGNALED P status"
  shows "udisks_spawned_job_spawned_job_completed_default P j None status (Some out) (Some err)
           = Some (False,
               ''Command-line '' @ [backtick] @ printf_s (command_line j) @ [apostrophe]
                 @ '' was signaled with signal '' @ get_signal_name P (WTERMSIG P status)
                 @ '' ('' @ printf_d (WTERMSIG P status) @ '').'' @ [newline]
                 @ ''stdout: '' @ [backtick] @ cstr out @ [apostrophe, newline]
                 @ ''stderr: '' @ [backtick] @ cstr err @ [apostrophe])
         \<and> map signal_name handled_signals =
             [''SIGHUP'', ''SIGINT'', ''SIGQUIT'', ''SIGILL'', ''SIGABRT'', ''SIGFPE'', ''SIGKILL'',
              ''SIGSEGV'', ''SIGPIPE'', ''SIGALRM'', ''SIGTERM'', ''SIGUSR1'', ''SIGUSR2'',
              ''SIGCHLD'', ''SIGCONT'', ''SIGSTOP'', ''SIGTSTP'', ''SIGTTIN'', ''SIGTTOU'', ''SIGBUS'',
              ''SIGPOLL'', ''SIGPROF'', ''SIGSYS'', ''SIGTRAP'', ''SIGURG'', ''SIGVTALRM'', ''SIGXCPU'',
              ''SIGXFSZ'']
         \<and> length handled_signals = 28
         \<and> (distinct (map (signo P) handled_signals) \<longrightarrow>
              (\<forall>sig. get_signal_name P (signo P sig) = signal_name sig))
         \<and> ((\<forall>sig. signo P sig \<noteq> n) \<longrightarrow> get_signal_name P n = ''UNKNOWN_SIGNAL'')"
proof (intro conjI)
  show "udisks_spawned_job_spawned_job_completed_default P j None status (Some out) (Some err)
           = Some (False,
               ''Command-line '' @ [backtick] @ printf_s (command_line j) @ [apostrophe]
                 @ '' was signaled with signal '' @ get_signal_name P (WTERMSIG P status)
                 @ '' ('' @ printf_d (WTERMSIG P status) @ '').'' @ [newline]
                 @ ''stdout: '' @ [backtick] @ cstr out @ [apostrophe, newline]
                 @ ''stderr: '' @ [backtick] @ cstr err @ [apostrophe])"
    using assms by (simp add: udisks_spawned_job_spawned_job_completed_default_def)
qed (simp_all add: handled_signals_def get_signal_name_handled get_signal_name_unknown)

text \<open>Witness of C4 on Linux: the status 15 is that of a child killed by \<open>SIGTERM\<close>; the
  numbers of the 28 signals are distinct, 11 is \<open>SIGSEGV\<close> and 16 is none of them.\<close>

theorem signaled_message_format_witness:
  "\<not> WIFEXITED linux_platform 15 \<and> WIFSIGNALED linux_platform 15
   \<and> distinct (map (signo linux_platform) handled_signals)
   \<and> udisks_spawned_job_spawned_job_completed_default linux_platform sleep_job None 15
       (Some ''out'') (Some ''err'')
     = Some (False, ''Command-line '' @ [backtick] @ ''/bin/sleep 60'' @ [apostrophe]
                 @ '' was signaled with signal SIGTERM (15).'' @ [newline]
                 @ ''stdout: '' @ [backtick] @ ''out'' @ [apostrophe, newline]
                 @ ''stderr: '' @ [backtick] @ ''err'' @ [apostrophe])
   \<and> get_signal_name linux_platform (signo linux_platform SIGSEGV) = ''SIGSEGV''
   \<and> get_signal_name linux_platform 16 = ''UNKNOWN_SIGNAL''"
proof -
  have d: "distinct (map (signo linux_platform) handled_signals)"
    by (simp add: linux_platform_def handled_signals_def)
  have u: "\<forall>sig. signo linux_platform sig \<noteq> 16"
  proof
    fix sig show "signo linux_platform sig \<noteq> 16"
      by (cases sig) (simp_all add: linux_platform_def)
  qed
  from signaled_message_format [OF linux_status_15(1) linux_status_15(2),
         of sleep_job "''out''" "''err''" 16] d u
  show ?thesis
    by (simp add: linux_status_15 linux_signal_15 printf_d_15 sleep_job_def
          udisks_spawned_job_init_def printf_s_def cstr_def NUL_def)
qed

section \<open>The standard input of the child\<close>

text \<open>
  Claim C5: when the cursor is set and bytes remain, \<open>write_child_stdin\<close> writes the
  bytes from the cursor that the channel accepts (at most \<open>room\<close>, at most what remains),
  advances the cursor by exactly their number, touches nothing else of the standard
  input and returns \<open>TRUE\<close>, which keeps the source. When the cursor is \<open>NULL\<close> or nothing
  remains, it writes no byte, destroys the source, closes the descriptor, which is its
  last act, sets the fields for the source and the channel to \<open>NULL\<close> and the descriptor to
  -1, and returns \<open>FALSE\<close>.
\<close>

theorem write_child_stdin_pump:
  "(input_string_cursor (job w) \<noteq> None \<and> remaining_input (job w) \<noteq> [] \<longrightarrow>
      (let n = min room (length (remaining_input (job w)));
           w' = snd (write_child_stdin room w)
       in fst (write_child_stdin room w)
          \<and> stdin_pipe w' = stdin_pipe w @ take n (remaining_input (job w))
          \<and> input_string_cursor (job w') = map_option (\<lambda>off. off + n) (input_string_cursor (job w))
          \<and> (input_string (job w) \<noteq> None \<longrightarrow> remaining_input (job w') = drop n (remaining_input (job w)))
          \<and> child_stdin_source (job w') = child_stdin_source (job w)
          \<and> child_stdin_channel (job w') = child_stdin_channel (job w)
          \<and> child_stdin_fd (job w') = child_stdin_fd (job w)
          \<and> effects w' = effects w))
   \<and> (input_string_cursor (job w) = None \<or> remaining_input (job w) = [] \<longrightarrow>
        (let w' = snd (write_child_stdin room w)
         in \<not> fst (write_child_stdin room w)
            \<and> stdin_pipe w' = stdin_pipe w
            \<and> (\<exists>pre. effects w' = effects w @ pre @ [Close (child_stdin_fd (job w))]
                  \<and> (\<forall>s. child_stdin_source (job w) = Some s \<longrightarrow> SourceDestroy s \<in> set pre))
            \<and> child_stdin_source (job w') = None
            \<and> child_stdin_channel (job w') = None
            \<and> child_stdin_fd (job w') = - 1))"
  by (auto simp add: write_child_stdin_def Let_def remaining_input_def add.commute
        split: option.splits)

lemma cat_world:
  "input_string_cursor (job (udisks_spawned_job_new example_env ''/bin/cat'' (Some ''hello'') None))
     = Some 0"
  "remaining_input (job (udisks_spawned_job_new example_env ''/bin/cat'' (Some ''hello'') None))
     = ''hello''"
  "stdin_pipe (udisks_spawned_job_new example_env ''/bin/cat'' (Some ''hello'') None) = []"
  by code_simp+

lemma cat_world_written:
  "remaining_input (job (run linux_platform
      (udisks_spawned_job_new example_env ''/bin/cat'' (Some ''hello'') None)
      [StdinWritable 3, StdinWritable 2])) = []"
  "child_stdin_fd (job (run linux_platform
      (udisks_spawned_job_new example_env ''/bin/cat'' (Some ''hello'') None)
      [StdinWritable 3, StdinWritable 2])) = 5"
  "stdin_pipe (run linux_platform
      (udisks_spawned_job_new example_env ''/bin/cat'' (Some ''hello'') None)
      [StdinWritable 3, StdinWritable 2]) = ''hello''"
  by code_simp+

text \<open>Witness of C5: a job with the input \<open>hello\<close>. The first callback finds room for
  three bytes; after all five are written, the next callback closes the descriptor 5.\<close>

theorem write_child_stdin_pump_witness:
  "fst (write_child_stdin 3 (udisks_spawned_job_new example_env ''/bin/cat'' (Some ''hello'') None))
   \<and> stdin_pipe (snd (write_child_stdin 3
        (udisks_spawned_job_new example_env ''/bin/cat'' (Some ''hello'') None))) = ''hel''
   \<and> input_string_cursor (job (snd (write_child_stdin 3
        (udisks_spawned_job_new example_env ''/bin/cat'' (Some ''hello'') None)))) = Some 3
   \<and> \<not> fst (write_child_stdin 3 (run linux_platform
        (udisks_spawned_job_new example_env ''/bin/cat'' (Some ''hello'') None)
        [StdinWritable 3, StdinWritable 2]))
   \<and> child_stdin_fd (job (snd (write_child_stdin 3 (run linux_platform
        (udisks_spawned_job_new example_env ''/bin/cat'' (Some ''hello'') None)
        [StdinWritable 3, StdinWritable 2])))) = - 1
   \<and> stdin_pipe (snd (write_child_stdin 3 (run linux_platform
        (udisks_spawned_job_new example_env ''/bin/cat'' (Some ''hello'') None)
        [StdinWritable 3, StdinWritable 2]))) = ''hello''"
  using write_child_stdin_pump
          [of "udisks_spawned_job_new example_env ''/bin/cat'' (Some ''hello'') None" 3]
        write_child_stdin_pump
          [of "run linux_platform
                 (udisks_spawned_job_new example_env ''/bin/cat'' (Some ''hello'') None)
                 [StdinWritable 3, StdinWritable 2]" 3]
  by (simp add: cat_world cat_world_written Let_def del: run.simps)

section \<open>One completion for each callback\<close>

lemma released_job_fields [simp]:
  "child_watch_source (released_job j) = None"
  "cancellable_handler_id (released_job j) = 0"
  "input_string (released_job j) = input_string j"
  "command_line (released_job j) = command_line j"
  "main_context (released_job j) = main_context j"
  "input_string_cursor (released_job j) = input_string_cursor j"
  by (simp_all add: released_job_def)

lemma child_watch_cb_fields:
  assumes "\<not> crashed w" "child_stdout (job w) \<noteq> None" "child_stderr (job w) \<noteq> None"
  shows "\<exists>out err. spawned_job_completed (child_watch_cb P st ro re h w)
            = spawned_job_completed w @ [(None, st, Some out, Some err)]"
    and "idle_sources (child_watch_cb P st ro re h w) = idle_sources w"
    and "token_cancelled (child_watch_cb P st ro re h w) = token_cancelled w"
    and "\<not> crashed (child_watch_cb P st ro re h w)"
    and "child_watch_source (job (child_watch_cb P st ro re h w)) = None"
    and "cancellable_handler_id (job (child_watch_cb P st ro re h w)) = 0"
    and "input_string (job (child_watch_cb P st ro re h w)) = input_string (job w)"
    and "main_context (job (child_watch_cb P st ro re h w)) = main_context (job w)"
  using assms
  by (auto simp add: child_watch_cb_def Let_def release_resources_eq split: option.splits)

lemma write_child_stdin_fields [simp]:
  "spawned_job_completed (snd (write_child_stdin room w)) = spawned_job_completed w"
  "idle_sources (snd (write_child_stdin room w)) = idle_sources w"
  "token_cancelled (snd (write_child_stdin room w)) = token_cancelled w"
  "crashed (snd (write_child_stdin room w)) = crashed w"
  "child_watch_source (job (snd (write_child_stdin room w))) = child_watch_source (job w)"
  "child_stdout (job (snd (write_child_stdin room w))) = child_stdout (job w)"
  "child_stderr (job (snd (write_child_stdin room w))) = child_stderr (job w)"
  "cancellable_handler_id (job (snd (write_child_stdin room w))) = cancellable_handler_id (job w)"
  "input_string (job (snd (write_child_stdin room w))) = input_string (job w)"
  "main_context (job (snd (write_child_stdin room w))) = main_context (job w)"
  by (simp_all add: write_child_stdin_def Let_def)

lemma cancel_fields [simp]:
  "spawned_job_completed (g_cancellable_cancel w) = spawned_job_completed w"
  "job (g_cancellable_cancel w) = job w"
  "crashed (g_cancellable_cancel w) = crashed w"
  by (simp_all add: g_cancellable_cancel_def Let_def on_cancelled_def
        emit_completed_with_error_in_idle_def g_cancellable_set_error_if_cancelled_def)

lemma cancel_idle_sources:
  "idle_sources (g_cancellable_cancel w) =
     idle_sources w @ (if \<not> token_cancelled w \<and> cancellable_handler_id (job w) > 0
                       then [(main_context (job w), cancelled_error)] else [])"
  by (simp add: g_cancellable_cancel_def Let_def on_cancelled_def
        emit_completed_with_error_in_idle_def g_cancellable_set_error_if_cancelled_def)

lemma cancel_token [simp]: "token_cancelled (g_cancellable_cancel w)"
  by (simp add: g_cancellable_cancel_def Let_def on_cancelled_def
        emit_completed_with_error_in_idle_def g_cancellable_set_error_if_cancelled_def)

lemma step_well_formed: "well_formed w \<Longrightarrow> well_formed (step P e w)"
  by (cases e)
     (auto simp add: well_formed_def emit_completed_with_error_in_idle_cb_def
        read_child_stdout_def read_child_stderr_def child_watch_cb_fields
        split: list.splits prod.splits)



lemma step_token: "token_cancelled w \<Longrightarrow> token_cancelled (step P e w)"
  by (cases e)
     (auto simp add: emit_completed_with_error_in_idle_cb_def g_cancellable_cancel_def
        read_child_stdout_def read_child_stderr_def child_watch_cb_fields
        child_watch_cb_def Let_def release_resources_eq
        split: list.splits prod.splits)

lemma run_append: "run P w (es @ es') = run P (run P w es) es'"
  by (induction es arbitrary: w) simp_all

lemma run_well_formed: "well_formed w \<Longrightarrow> well_formed (run P w es)"
  by (induction es arbitrary: w) (simp_all add: step_well_formed)

lemma run_token: "token_cancelled w \<Longrightarrow> token_cancelled (run P w es)"
  by (induction es arbitrary: w) (simp_all add: step_token)

lemma step_token_other:
  "well_formed w \<Longrightarrow> e \<noteq> TokenTripped \<Longrightarrow> token_cancelled (step P e w) = token_cancelled w"
  by (cases e)
     (auto simp add: emit_completed_with_error_in_idle_cb_def well_formed_def
        read_child_stdout_def read_child_stderr_def child_watch_cb_fields
        split: list.splits prod.splits)


text \<open>\<open>cancelled_while_connected\<close> in words: the run has a point where the token is
  cancelled, it was not cancelled before, and the handler id of the job is not 0.\<close>

lemma cancelled_while_connected_iff:
  "cancelled_while_connected P w es \<longleftrightarrow>
     (\<exists>es1 es2. es = es1 @ TokenTripped # es2
        \<and> \<not> token_cancelled (run P w es1)
        \<and> cancellable_handler_id (job (run P w es1)) > 0)"
proof (induction es arbitrary: w)
  case Nil
  then show ?case by simp
next
  case (Cons e es)
  show ?case
  proof
    assume "cancelled_while_connected P w (e # es)"
    then consider
        (now) "e = TokenTripped" "\<not> token_cancelled w" "cancellable_handler_id (job w) > 0"
      | (later) "cancelled_while_connected P (step P e w) es"
      by auto
    then show "\<exists>es1 es2. e # es = es1 @ TokenTripped # es2
        \<and> \<not> token_cancelled (run P w es1)
        \<and> cancellable_handler_id (job (run P w es1)) > 0"
    proof cases
      case now
      then have "e # es = [] @ TokenTripped # es \<and> \<not> token_cancelled (run P w [])
          \<and> cancellable_handler_id (job (run P w [])) > 0" by simp
      then show ?thesis by blast
    next
      case later
      with Cons.IH [of "step P e w"] obtain es1 es2 where
        "es = es1 @ TokenTripped # es2" "\<not> token_cancelled (run P (step P e w) es1)"
        "cancellable_handler_id (job (run P (step P e w) es1)) > 0" by blast
      then have "e # es = (e # es1) @ TokenTripped # es2
          \<and> \<not> token_cancelled (run P w (e # es1))
          \<and> cancellable_handler_id (job (run P w (e # es1))) > 0" by simp
      then show ?thesis by blast
    qed
  next
    assume "\<exists>es1 es2. e # es = es1 @ TokenTripped # es2
        \<and> \<not> token_cancelled (run P w es1)
        \<and> cancellable_handler_id (job (run P w es1)) > 0"
    then obtain es1 es2 where s: "e # es = es1 @ TokenTripped # es2"
      and c: "\<not> token_cancelled (run P w es1)"
        "cancellable_handler_id (job (run P w es1)) > 0" by blast
    show "cancelled_while_connected P w (e # es)"
    proof (cases es1)
      case Nil
      with s c show ?thesis by simp
    next
      case (Cons e' es1')
      with s c have "es = es1' @ TokenTripped # es2"
        "\<not> token_cancelled (run P (step P e w) es1')"
        "cancellable_handler_id (job (run P (step P e w) es1')) > 0" by simp_all
      with Cons.IH [of "step P e w"] show ?thesis by auto
    qed
  qed
qed


lemma new_well_formed: "well_formed (udisks_spawned_job_new env cmd input token)"
  by (auto simp add: udisks_spawned_job_new_def udisks_spawned_job_constructed_def Let_def
        well_formed_def emit_completed_with_error_in_idle_def g_strdup_def
        g_cancellable_set_error_if_cancelled_def attach_child_def udisks_spawned_job_init_def
        split: sum.splits prod.splits)



lemma run_not_crashed: "\<not> crashed (run P (udisks_spawned_job_new env cmd input token) es)"
  using run_well_formed [OF new_well_formed, of P env cmd input token es]
  by (simp add: well_formed_def)

text \<open>Every emission a job makes is well formed, so the default handler never reads a
  buffer through \<open>NULL\<close>.\<close>

lemma step_emissions:
  assumes "well_formed w" and "list_all emission_well_formed (spawned_job_completed w)"
  shows "list_all emission_well_formed (spawned_job_completed (step P e w))"
proof (cases e)
  case (ChildExited st ro re h)
  show ?thesis
  proof (cases "child_watch_source (job w) = None")
    case True
    then show ?thesis using ChildExited assms by simp
  next
    case False
    with assms have a: "\<not> crashed w" "child_stdout (job w) \<noteq> None" "child_stderr (job w) \<noteq> None"
      by (auto simp: well_formed_def)
    from child_watch_cb_fields(1) [OF a, of P st ro re h]
    obtain out err where
      "spawned_job_completed (child_watch_cb P st ro re h w)
         = spawned_job_completed w @ [(None, st, Some out, Some err)]" by blast
    then show ?thesis using ChildExited False a assms
      by (simp add: emission_well_formed_def)
  qed
qed (use assms in \<open>auto simp add: emission_well_formed_def
       emit_completed_with_error_in_idle_cb_def read_child_stdout_def read_child_stderr_def
       split: list.splits prod.splits\<close>)

lemma run_emissions:
  "well_formed w \<Longrightarrow> list_all emission_well_formed (spawned_job_completed w) \<Longrightarrow>
     list_all emission_well_formed (spawned_job_completed (run P w es))"
  by (induction es arbitrary: w) (simp_all add: step_emissions step_well_formed del: step.simps)

lemma new_no_emission: "spawned_job_completed (udisks_spawned_job_new env cmd input token) = []"
  by (auto simp add: udisks_spawned_job_new_def udisks_spawned_job_constructed_def Let_def
        emit_completed_with_error_in_idle_def g_strdup_def
        g_cancellable_set_error_if_cancelled_def attach_child_def udisks_spawned_job_init_def
        split: sum.splits prod.splits)

lemma run_emissions_well_formed:
  "list_all emission_well_formed
     (spawned_job_completed (run P (udisks_spawned_job_new env cmd input token) es))"
  by (rule run_emissions) (simp_all add: new_well_formed new_no_emission)


lemma new_main_context:
  "main_context (job (udisks_spawned_job_new env cmd input token)) = thread_default_context env"
  by (auto simp add: udisks_spawned_job_new_def udisks_spawned_job_constructed_def Let_def
        emit_completed_with_error_in_idle_def g_strdup_def
        g_cancellable_set_error_if_cancelled_def attach_child_def udisks_spawned_job_init_def
        split: sum.splits prod.splits)

lemma step_main_context: "well_formed w \<Longrightarrow> main_context (job (step P e w)) = main_context (job w)"
  by (cases e)
     (auto simp add: emit_completed_with_error_in_idle_cb_def well_formed_def
        read_child_stdout_def read_child_stderr_def child_watch_cb_fields
        split: list.splits prod.splits)

lemma run_main_context: "well_formed w \<Longrightarrow> main_context (job (run P w es)) = main_context (job w)"
  by (induction es arbitrary: w) (simp_all add: step_main_context step_well_formed del: step.simps)

text \<open>What construction leaves, path by path.\<close>

lemma new_pretripped:
  "idle_sources (udisks_spawned_job_new env cmd input (Some True))
     = [(thread_default_context env, cancelled_error)]"
  "spawned_job_completed (udisks_spawned_job_new env cmd input (Some True)) = []"
  "child_watch_source (job (udisks_spawned_job_new env cmd input (Some True))) = None"
  by (simp_all add: udisks_spawned_job_new_def udisks_spawned_job_constructed_def Let_def
        emit_completed_with_error_in_idle_def g_cancellable_set_error_if_cancelled_def
        udisks_spawned_job_init_def)









lemma example_env_simps:
  "thread_default_context example_env = Some 1"
  "shell_parse_argv example_env cmd = Inr [cmd]"
  "spawn_async_with_pipes example_env argv = Inr (4242, 5, 6, 7)"
  by (simp_all add: example_env_def)



section \<open>Cancellation\<close>

lemma step_pending_or_emitted:
  "well_formed w \<Longrightarrow> cancelled_pending_or_emitted c w \<Longrightarrow>
     cancelled_pending_or_emitted c (step P e w)"
proof (cases e)
  case (ChildExited st ro re h)
  assume wf: "well_formed w" and c: "cancelled_pending_or_emitted c w"
  show ?thesis
  proof (cases "child_watch_source (job w) = None")
    case True
    then show ?thesis using ChildExited c by simp
  next
    case False
    with wf have a: "\<not> crashed w" "child_stdout (job w) \<noteq> None" "child_stderr (job w) \<noteq> None"
      by (auto simp: well_formed_def)
    from child_watch_cb_fields(1) [OF a, of P st ro re h]
    obtain out err where
      "spawned_job_completed (child_watch_cb P st ro re h w)
         = spawned_job_completed w @ [(None, st, Some out, Some err)]" by blast
    then show ?thesis using ChildExited False a c
      by (auto simp add: cancelled_pending_or_emitted_def child_watch_cb_fields)
  qed
qed (auto simp add: cancelled_pending_or_emitted_def cancel_idle_sources cancelled_args_def
       emit_completed_with_error_in_idle_cb_def read_child_stdout_def read_child_stderr_def
       split: list.splits prod.splits)

lemma run_pending_or_emitted:
  "well_formed w \<Longrightarrow> cancelled_pending_or_emitted c w \<Longrightarrow>
     cancelled_pending_or_emitted c (run P w es)"
  by (induction es arbitrary: w) (simp_all add: step_pending_or_emitted step_well_formed)

lemma step_handler:
  "\<not> is_child_exit e \<Longrightarrow> cancellable_handler_id (job (step P e w)) = cancellable_handler_id (job w)"
  by (cases e)
     (auto simp add: is_child_exit_def emit_completed_with_error_in_idle_cb_def
        read_child_stdout_def read_child_stderr_def split: list.splits prod.splits)

lemma run_connected:
  "well_formed w \<Longrightarrow> TokenTripped \<notin> set es \<Longrightarrow> \<forall>e\<in>set es. \<not> is_child_exit e \<Longrightarrow>
     cancellable_handler_id (job (run P w es)) = cancellable_handler_id (job w)
     \<and> token_cancelled (run P w es) = token_cancelled w"
proof (induction es arbitrary: w)
  case Nil
  then show ?case by simp
next
  case (Cons e es)
  from Cons.prems have e: "e \<noteq> TokenTripped" "\<not> is_child_exit e" by auto
  from Cons.prems(1) have wf: "well_formed (step P e w)" by (rule step_well_formed)
  have "cancellable_handler_id (job (step P e w)) = cancellable_handler_id (job w)"
    using e(2) by (rule step_handler)
  moreover have "token_cancelled (step P e w) = token_cancelled w"
    using Cons.prems(1) e(1) by (rule step_token_other)
  ultimately show ?case
    using Cons.IH [OF wf] Cons.prems by simp
qed

lemma new_connected:
  "token \<noteq> Some True \<Longrightarrow>
     cancellable_handler_id (job (udisks_spawned_job_new env cmd input token)) > 0
     \<and> \<not> token_cancelled (udisks_spawned_job_new env cmd input token)"
  by (auto simp add: udisks_spawned_job_new_def udisks_spawned_job_constructed_def Let_def
        emit_completed_with_error_in_idle_def g_strdup_def
        g_cancellable_set_error_if_cancelled_def attach_child_def udisks_spawned_job_init_def
        split: sum.splits prod.splits)

lemma trip_connected:
  "\<not> crashed w \<Longrightarrow> \<not> token_cancelled w \<Longrightarrow> cancellable_handler_id (job w) > 0 \<Longrightarrow>
     idle_sources (step P TokenTripped w)
       = idle_sources w @ [(main_context (job w), cancelled_error)]"
  by (simp add: cancel_idle_sources)

text \<open>
  Claim C3. The job captures the thread-default main context of the constructing thread
  in \<open>main_context\<close> and keeps it. A job constructed with a cancelled token has attached
  to that context, when the construction returns, an idle source for the error
  \<open>G_IO_ERROR_CANCELLED\<close>, and has emitted nothing. When the token is cancelled later,
  before the child watch has been dispatched, the handler attaches such an idle source
  to that context and emits nothing itself. The callback of the source emits the
  completion with this error, the status 0 and \<open>NULL\<close> for both buffers. So from the
  cancellation on, whatever happens next, this completion has been emitted or its idle
  source is still attached to the captured context.
\<close>

theorem cancellation_emits_cancelled_from_idle:
  "main_context (job (run P (udisks_spawned_job_new env cmd input token) es))
     = thread_default_context env
   \<and> (idle_sources (udisks_spawned_job_new env cmd input (Some True))
        = [(thread_default_context env, cancelled_error)]
      \<and> spawned_job_completed (udisks_spawned_job_new env cmd input (Some True)) = []
      \<and> cancelled_pending_or_emitted (thread_default_context env)
          (run P (udisks_spawned_job_new env cmd input (Some True)) es'))
   \<and> (token \<noteq> Some True \<and> TokenTripped \<notin> set es \<and> (\<forall>e\<in>set es. \<not> is_child_exit e) \<longrightarrow>
        idle_sources (step P TokenTripped (run P (udisks_spawned_job_new env cmd input token) es))
          = idle_sources (run P (udisks_spawned_job_new env cmd input token) es)
              @ [(thread_default_context env, cancelled_error)]
        \<and> spawned_job_completed (step P TokenTripped (run P (udisks_spawned_job_new env cmd input token) es))
          = spawned_job_completed (run P (udisks_spawned_job_new env cmd input token) es)
        \<and> cancelled_pending_or_emitted (thread_default_context env)
            (run P (udisks_spawned_job_new env cmd input token) (es @ TokenTripped # es')))
   \<and> (\<not> crashed w \<and> idle_sources w = (c, cancelled_error) # rest \<longrightarrow>
        spawned_job_completed (step P (IdleDispatched handled) w)
          = spawned_job_completed w @ [(Some cancelled_error, 0, None, None)]
        \<and> idle_sources (step P (IdleDispatched handled) w) = rest)"
proof (intro conjI impI)
  show "main_context (job (run P (udisks_spawned_job_new env cmd input token) es))
      = thread_default_context env"
    by (simp add: run_main_context new_well_formed new_main_context)
next
  let ?w0 = "udisks_spawned_job_new env cmd input (Some True)"
  show "idle_sources ?w0 = [(thread_default_context env, cancelled_error)]"
    "spawned_job_completed ?w0 = []"
    by (simp_all add: new_pretripped)
  have "cancelled_pending_or_emitted (thread_default_context env) ?w0"
    by (simp add: cancelled_pending_or_emitted_def new_pretripped)
  with new_well_formed
  show "cancelled_pending_or_emitted (thread_default_context env) (run P ?w0 es')"
    by (rule run_pending_or_emitted)
next
  let ?w = "run P (udisks_spawned_job_new env cmd input token) es"
  assume a: "token \<noteq> Some True \<and> TokenTripped \<notin> set es \<and> (\<forall>e\<in>set es. \<not> is_child_exit e)"
  have wf: "well_formed ?w" by (simp add: run_well_formed new_well_formed)
  then have wf1: "well_formed (step P TokenTripped ?w)" by (rule step_well_formed)
  have mc: "main_context (job ?w) = thread_default_context env"
    by (simp add: run_main_context new_well_formed new_main_context)
  from a run_connected [OF new_well_formed, of es P env cmd input token]
       new_connected [of token env cmd input]
  have "cancellable_handler_id (job ?w) > 0" "\<not> token_cancelled ?w" by simp_all
  moreover have "\<not> crashed ?w" using wf by (simp add: well_formed_def)
  ultimately have "idle_sources (step P TokenTripped ?w)
      = idle_sources ?w @ [(main_context (job ?w), cancelled_error)]"
    by (intro trip_connected)
  with mc show i: "idle_sources (step P TokenTripped ?w)
      = idle_sources ?w @ [(thread_default_context env, cancelled_error)]"
    by simp
  show "spawned_job_completed (step P TokenTripped ?w) = spawned_job_completed ?w"
    by simp
  from i have "cancelled_pending_or_emitted (thread_default_context env) (step P TokenTripped ?w)"
    by (simp add: cancelled_pending_or_emitted_def del: step.simps)
  with wf1 have "cancelled_pending_or_emitted (thread_default_context env)
      (run P (step P TokenTripped ?w) es')"
    by (rule run_pending_or_emitted)
  then show "cancelled_pending_or_emitted (thread_default_context env)
      (run P (udisks_spawned_job_new env cmd input token) (es @ TokenTripped # es'))"
    by (simp add: run_append)
next
  assume "\<not> crashed w \<and> idle_sources w = (c, cancelled_error) # rest"
  then show "spawned_job_completed (step P (IdleDispatched handled) w)
      = spawned_job_completed w @ [(Some cancelled_error, 0, None, None)]"
    and "idle_sources (step P (IdleDispatched handled) w) = rest"
    by (simp_all add: emit_completed_with_error_in_idle_cb_def)
qed

lemma sleep_world_idle:
  "idle_sources (run linux_platform
      (udisks_spawned_job_new example_env ''/bin/sleep 60'' None (Some False))
      [StdoutReadable ''x'', TokenTripped, StderrReadable ''y'']) = [(Some 1, cancelled_error)]"
  "\<not> crashed (run linux_platform
      (udisks_spawned_job_new example_env ''/bin/sleep 60'' None (Some False))
      [StdoutReadable ''x'', TokenTripped, StderrReadable ''y''])"
  by code_simp+

text \<open>Witness of C3: the constructing thread has the main context 1. The child writes
  to its output, the token is cancelled, the child writes again, and the main loop
  dispatches the idle source, which is attached to the context 1.\<close>

theorem cancellation_emits_cancelled_from_idle_witness:
  "main_context (job (run linux_platform
      (udisks_spawned_job_new example_env ''/bin/sleep 60'' None (Some False))
      [StdoutReadable ''x''])) = Some 1
   \<and> cancelled_pending_or_emitted (Some 1) (run linux_platform
      (udisks_spawned_job_new example_env ''/bin/sleep 60'' None (Some False))
      [StdoutReadable ''x'', TokenTripped, StderrReadable ''y''])
   \<and> spawned_job_completed (step linux_platform (IdleDispatched False) (run linux_platform
      (udisks_spawned_job_new example_env ''/bin/sleep 60'' None (Some False))
      [StdoutReadable ''x'', TokenTripped, StderrReadable ''y'']))
     = spawned_job_completed (run linux_platform
      (udisks_spawned_job_new example_env ''/bin/sleep 60'' None (Some False))
      [StdoutReadable ''x'', TokenTripped, StderrReadable ''y''])
       @ [(Some cancelled_error, 0, None, None)]"
  using cancellation_emits_cancelled_from_idle
          [where P = linux_platform and env = example_env and cmd = "''/bin/sleep 60''"
             and input = None and token = "Some False" and es = "[StdoutReadable ''x'']"
             and es' = "[StderrReadable ''y'']"
             and w = "run linux_platform
                 (udisks_spawned_job_new example_env ''/bin/sleep 60'' None (Some False))
                 [StdoutReadable ''x'', TokenTripped, StderrReadable ''y'']"
             and c = "Some 1" and rest = "[]" and handled = False]
  by (simp add: sleep_world_idle is_child_exit_def example_env_simps del: run.simps step.simps)

section \<open>The input string at finalization\<close>

lemma releases_input_simps [simp]:
  "releases_input (GFree m b) = (m = InputStringBlock)"
  "\<not> releases_input (Kill p s)"
  "\<not> releases_input (Close fd)"
  "\<not> releases_input (SourceDestroy src)"
  "\<not> releases_input (ChannelUnref c)"
  "\<not> releases_input (StringFree str)"
  "\<not> releases_input (CancellableDisconnect n)"
  "\<not> releases_input (CancellableUnref t)"
  "\<not> releases_input (MainContextUnref ctx)"
  by (simp_all add: releases_input_def split: memblock.splits)

lemma list_all_case_option [simp]:
  "list_all Q (case a of None \<Rightarrow> [] | Some s \<Rightarrow> [f s]) = (\<forall>s. a = Some s \<longrightarrow> Q (f s))"
  by (cases a) simp_all

lemma release_effects_keep_input:
  "list_all (\<lambda>x. \<not> releases_input x) (release_effects j)"
  by (simp add: release_effects_def)

lemma step_keeps_input:
  "list_all (\<lambda>x. \<not> releases_input x) (effects w) \<Longrightarrow>
     list_all (\<lambda>x. \<not> releases_input x) (effects (step P e w))"
  by (cases e)
     (auto simp add: emit_completed_with_error_in_idle_cb_def g_cancellable_cancel_def
        on_cancelled_def emit_completed_with_error_in_idle_def
        read_child_stdout_def read_child_stderr_def write_child_stdin_def
        child_watch_cb_def Let_def release_resources_eq release_effects_keep_input
        split: list.splits prod.splits option.splits)

lemma run_keeps_input:
  "list_all (\<lambda>x. \<not> releases_input x) (effects w) \<Longrightarrow>
     list_all (\<lambda>x. \<not> releases_input x) (effects (run P w es))"
  by (induction es arbitrary: w) (simp_all add: step_keeps_input del: step.simps)

lemma step_input_string: "input_string (job (step P e w)) = input_string (job w)"
  by (cases e)
     (auto simp add: emit_completed_with_error_in_idle_cb_def
        read_child_stdout_def read_child_stderr_def
        child_watch_cb_def Let_def release_resources_eq
        split: list.splits prod.splits option.splits)

lemma run_input_string: "input_string (job (run P w es)) = input_string (job w)"
  by (induction es arbitrary: w) (simp_all add: step_input_string del: step.simps)

lemma new_input_string:
  "input_string (job (udisks_spawned_job_new env cmd input token)) = g_strdup input"
  by (auto simp add: udisks_spawned_job_new_def udisks_spawned_job_constructed_def Let_def
        emit_completed_with_error_in_idle_def g_strdup_def
        g_cancellable_set_error_if_cancelled_def attach_child_def udisks_spawned_job_init_def
        split: sum.splits prod.splits)

lemma new_effects: "effects (udisks_spawned_job_new env cmd input token) = []"
  by (auto simp add: udisks_spawned_job_new_def udisks_spawned_job_constructed_def Let_def
        emit_completed_with_error_in_idle_def g_strdup_def
        g_cancellable_set_error_if_cancelled_def attach_child_def udisks_spawned_job_init_def
        split: sum.splits prod.splits)

lemma memset_cstr: "memset (cstr s) NUL (strlen (cstr s)) = replicate (length (cstr s)) NUL"
  by (simp add: memset_def strlen_def cstr_def)

lemma finalize_effects:
  "input_string (job w) = Some s \<Longrightarrow>
     effects (udisks_spawned_job_finalize w) =
       (effects w @ release_effects (job w)
          @ (case main_context (job w) of None \<Rightarrow> [] | Some c \<Rightarrow> [MainContextUnref c])
          @ (case command_line (job w) of None \<Rightarrow> [] | Some c \<Rightarrow> [GFree CommandLineBlock c]))
       @ [GFree InputStringBlock (memset s NUL (strlen s))]"
  by (simp add: udisks_spawned_job_finalize_def Let_def release_resources_eq)


text \<open>
  Claim C7: a job constructed with an input string is destroyed by
  \<open>udisks_spawned_job_finalize\<close>, after any run. The block of the input string is released
  once, as the last act, and the block then holds a zero byte at every position of the
  string: \<open>memset\<close> has overwritten it over its whole length.
\<close>

theorem finalize_zeroes_input_string:
  "\<exists>pre. effects (udisks_spawned_job_finalize
                    (run P (udisks_spawned_job_new env cmd (Some s) token) es))
           = pre @ [GFree InputStringBlock (replicate (length (cstr s)) NUL)]
         \<and> list_all (\<lambda>x. \<not> releases_input x) pre"
proof -
  let ?w = "run P (udisks_spawned_job_new env cmd (Some s) token) es"
  have i: "input_string (job ?w) = Some (cstr s)"
    by (simp add: run_input_string new_input_string g_strdup_def)
  have k: "list_all (\<lambda>x. \<not> releases_input x) (effects ?w)"
    by (rule run_keeps_input) (simp add: new_effects)
  let ?pre = "effects ?w @ release_effects (job ?w)
      @ (case main_context (job ?w) of None \<Rightarrow> [] | Some c \<Rightarrow> [MainContextUnref c])
      @ (case command_line (job ?w) of None \<Rightarrow> [] | Some c \<Rightarrow> [GFree CommandLineBlock c])"
  have "list_all (\<lambda>x. \<not> releases_input x) ?pre"
    using k by (simp add: release_effects_keep_input)
  moreover have "effects (udisks_spawned_job_finalize ?w)
      = ?pre @ [GFree InputStringBlock (replicate (length (cstr s)) NUL)]"
    unfolding finalize_effects [OF i] memset_cstr by (rule refl)
  ultimately show ?thesis by blast
qed


end
